theory Spec2Isabelle
  imports Main "HOL-Library.Word" "HOL-Library.Sublist"
begin

section \<open>JavaScript values the SDK computes with\<close>

text \<open>
  A JavaScript string is a sequence of UTF-16 code units, a Node \<open>Buffer\<close> a sequence
  of bytes. String literals of the source are written \<open>js ''...''\<close>.
\<close>

type_synonym jsstring = "16 word list"

type_synonym bytes = "8 word list"

definition js :: "string \<Rightarrow> jsstring" where
  "js s = map of_char s"

text \<open>
  Truthiness of an optional string (\<open>undefined\<close> is \<open>None\<close>): \<open>undefined\<close> and the
  empty string are falsy.
\<close>

definition truthy :: "jsstring option \<Rightarrow> bool" where
  "truthy v = (case v of None \<Rightarrow> False | Some s \<Rightarrow> s \<noteq> [])"

text \<open>
  \<open>String.prototype.replace(pattern, replacement)\<close> with a string pattern: the first
  occurrence is replaced, the rest of the string is kept. (The replacements of this
  program are empty, so the \<open>$\<close> patterns of a replacement play no part.)
\<close>

fun replaceFirst :: "jsstring \<Rightarrow> jsstring \<Rightarrow> jsstring \<Rightarrow> jsstring" where
  "replaceFirst pat rep [] = (if pat = [] then rep else [])"
| "replaceFirst pat rep (c # cs) =
     (if prefix pat (c # cs) then rep @ drop (length pat) (c # cs)
      else c # replaceFirst pat rep cs)"

text \<open>
  \<open>String.prototype.split(separator)\<close> with a one-unit separator: the pieces between
  the separators, at least one piece.
\<close>

fun splitOn :: "16 word \<Rightarrow> jsstring \<Rightarrow> jsstring list" where
  "splitOn sep [] = [[]]"
| "splitOn sep (c # cs) =
     (if c = sep then [] # splitOn sep cs
      else (case splitOn sep cs of
              [] \<Rightarrow> [[c]]
            | p # ps \<Rightarrow> (c # p) # ps))"

text \<open>\<open>Array.prototype.pop()\<close>: the last element, \<open>undefined\<close> on an empty array.\<close>

definition pop :: "'a list \<Rightarrow> 'a option" where
  "pop xs = (if xs = [] then None else Some (last xs))"

text \<open>Indexing an array at 0: \<open>undefined\<close> on an empty array.\<close>

definition first :: "'a list \<Rightarrow> 'a option" where
  "first xs = (case xs of [] \<Rightarrow> None | x # _ \<Rightarrow> Some x)"

text \<open>
  \<open>String.prototype.toLowerCase()\<close>. The ASCII capitals go to their small letters.
  Two code points beyond ASCII have a lower-case form with an ASCII letter in it
  (U+212A KELVIN SIGN gives \<open>k\<close>, U+0130 gives \<open>i\<close> followed by U+0307); they
  are mapped as Unicode says. Every other unit is kept: JavaScript lower-cases other
  letters beyond ASCII to units beyond ASCII, and this program never tells two such
  units apart.
\<close>

definition lowerUnit :: "16 word \<Rightarrow> jsstring" where
  "lowerUnit c =
     (if 0x41 \<le> c \<and> c \<le> 0x5A then [c + 0x20]
      else if c = 0x212A then [0x6B]
      else if c = 0x0130 then [0x69, 0x0307]
      else [c])"

definition toLowerCase :: "jsstring \<Rightarrow> jsstring" where
  "toLowerCase s = concat (map lowerUnit s)"

text \<open>The decimal text of a non-negative integer, as a template literal prints it.\<close>

fun decimal :: "nat \<Rightarrow> jsstring" where
  "decimal n = (if n < 10 then [of_nat (48 + n)] else decimal (n div 10) @ [of_nat (48 + n mod 10)])"

declare decimal.simps [simp del]

subsection \<open>Hexadecimal text and buffers\<close>

text \<open>
  \<open>digest('hex')\<close> prints each byte as two lower-case hexadecimal digits.
  \<open>Buffer.from(s, 'hex')\<close> reads pairs of hexadecimal digits (either case) and stops
  at the first pair that is not one; a last unit without a partner is dropped. Node
  looks a unit up in a table of 256 entries, by its low byte: a unit beyond U+00FF is
  read as the unit of its low eight bits.
\<close>

definition hexDigit :: "nat \<Rightarrow> 16 word" where
  "hexDigit n = (if n < 10 then of_nat (48 + n) else of_nat (87 + n))"

definition hexEncode :: "bytes \<Rightarrow> jsstring" where
  "hexEncode bs = concat (map (\<lambda>b. [hexDigit (unat b div 16), hexDigit (unat b mod 16)]) bs)"

definition unhex :: "16 word \<Rightarrow> nat option" where
  "unhex c =
     (if 0x30 \<le> c \<and> c \<le> 0x39 then Some (unat c - 0x30)
      else if 0x41 \<le> c \<and> c \<le> 0x46 then Some (unat c - 0x41 + 10)
      else if 0x61 \<le> c \<and> c \<le> 0x66 then Some (unat c - 0x61 + 10)
      else None)"

definition unhexUnit :: "16 word \<Rightarrow> nat option" where
  "unhexUnit c = unhex (take_bit 8 c)"

fun hexDecode :: "jsstring \<Rightarrow> bytes" where
  "hexDecode (a # b # rest) =
     (case unhexUnit a of
        None \<Rightarrow> []
      | Some x \<Rightarrow>
          (case unhexUnit b of
             None \<Rightarrow> []
           | Some y \<Rightarrow> of_nat (16 * x + y) # hexDecode rest))"
| "hexDecode [a] = []"
| "hexDecode [] = []"

subsection \<open>Errors\<close>

text \<open>
  The text of an error message. Where the program or Node's documentation spells the
  text out it is a string; the texts the engine writes for a \<open>SyntaxError\<close> of
  \<open>JSON.parse\<close> and for a \<open>TypeError\<close> of a property read are not modelled and
  stand as constructors of their own.
\<close>

datatype message = Msg jsstring | SyntaxErrorText | TypeErrorText

datatype exn = RangeError message | SyntaxError message | TypeError message

fun messageOf :: "exn \<Rightarrow> message" where
  "messageOf (RangeError m) = m"
| "messageOf (SyntaxError m) = m"
| "messageOf (TypeError m) = m"

text \<open>
  \<open>crypto.timingSafeEqual(a, b)\<close> throws a \<open>RangeError\<close> when the buffers differ in
  length and compares them otherwise.
\<close>

definition timingSafeEqual :: "bytes \<Rightarrow> bytes \<Rightarrow> exn + bool" where
  "timingSafeEqual a b =
     (if length a \<noteq> length b
      then Inl (RangeError (Msg (js ''Input buffers must have the same byte length'')))
      else Inr (a = b))"

subsection \<open>JSON.parse\<close>

text \<open>
  The values of JSON. A number keeps its text (its value is a double, which no
  property below reads); an object keeps its members in the order of the text.
\<close>

datatype json =
    JNull
  | JBool bool
  | JNumber jsstring
  | JString jsstring
  | JArray "json list"
  | JObject "(jsstring \<times> json) list"

definition isJsonSpace :: "16 word \<Rightarrow> bool" where
  "isJsonSpace c = (c = 0x20 \<or> c = 0x09 \<or> c = 0x0A \<or> c = 0x0D)"

definition skipSpace :: "jsstring \<Rightarrow> jsstring" where
  "skipSpace s = dropWhile isJsonSpace s"

definition isDigit :: "16 word \<Rightarrow> bool" where
  "isDigit c = (0x30 \<le> c \<and> c \<le> 0x39)"

definition jsonEscape :: "16 word \<Rightarrow> 16 word option" where
  "jsonEscape e =
     (if e = 0x22 then Some 0x22
      else if e = 0x5C then Some 0x5C
      else if e = 0x2F then Some 0x2F
      else if e = 0x62 then Some 0x08
      else if e = 0x66 then Some 0x0C
      else if e = 0x6E then Some 0x0A
      else if e = 0x72 then Some 0x0D
      else if e = 0x74 then Some 0x09
      else None)"

definition hex4 :: "jsstring \<Rightarrow> 16 word option" where
  "hex4 s =
     (case map unhex (take 4 s) of
        [Some a, Some b, Some c, Some d] \<Rightarrow> Some (of_nat (((a * 16 + b) * 16 + c) * 16 + d))
      | _ \<Rightarrow> None)"

text \<open>The units of a string after its opening quote, up to the closing one.\<close>

fun jsonStringChars :: "jsstring \<Rightarrow> (jsstring \<times> jsstring) option" where
  "jsonStringChars [] = None"
| "jsonStringChars (c # cs) =
     (if c = 0x22 then Some ([], cs)
      else if c = 0x5C then
        (case cs of
           [] \<Rightarrow> None
         | e # r \<Rightarrow>
             if e = 0x75 then
               (case hex4 r of
                  None \<Rightarrow> None
                | Some u \<Rightarrow> map_option (\<lambda>(t, rest). (u # t, rest)) (jsonStringChars (drop 4 r)))
             else
               (case jsonEscape e of
                  None \<Rightarrow> None
                | Some x \<Rightarrow> map_option (\<lambda>(t, rest). (x # t, rest)) (jsonStringChars r)))
      else if c < 0x20 then None
      else map_option (\<lambda>(t, rest). (c # t, rest)) (jsonStringChars cs))"

definition jsonDigits :: "jsstring \<Rightarrow> (jsstring \<times> jsstring) option" where
  "jsonDigits s =
     (if takeWhile isDigit s = [] then None
      else Some (takeWhile isDigit s, dropWhile isDigit s))"

definition jsonInt :: "jsstring \<Rightarrow> (jsstring \<times> jsstring) option" where
  "jsonInt s =
     (case s of
        [] \<Rightarrow> None
      | d # r \<Rightarrow> if d = 0x30 then Some ([d], r) else jsonDigits s)"

definition jsonFrac :: "jsstring \<Rightarrow> (jsstring \<times> jsstring) option" where
  "jsonFrac s =
     (case s of
        [] \<Rightarrow> Some ([], s)
      | d # r \<Rightarrow>
          if d = 0x2E then map_option (\<lambda>(t, rest). (d # t, rest)) (jsonDigits r)
          else Some ([], s))"

definition jsonExp :: "jsstring \<Rightarrow> (jsstring \<times> jsstring) option" where
  "jsonExp s =
     (case s of
        [] \<Rightarrow> Some ([], s)
      | e # r \<Rightarrow>
          if e = 0x65 \<or> e = 0x45 then
            (case r of
               [] \<Rightarrow> None
             | g # r' \<Rightarrow>
                 if g = 0x2B \<or> g = 0x2D
                 then map_option (\<lambda>(t, rest). (e # g # t, rest)) (jsonDigits r')
                 else map_option (\<lambda>(t, rest). (e # t, rest)) (jsonDigits r))
          else Some ([], s))"

definition jsonNumber :: "jsstring \<Rightarrow> (jsstring \<times> jsstring) option" where
  "jsonNumber s =
     (let (sign, s1) = (case s of [] \<Rightarrow> ([], s) | m # r \<Rightarrow> if m = 0x2D then ([m], r) else ([], s))
      in case jsonInt s1 of
           None \<Rightarrow> None
         | Some (i, s2) \<Rightarrow>
             (case jsonFrac s2 of
                None \<Rightarrow> None
              | Some (f, s3) \<Rightarrow>
                  (case jsonExp s3 of
                     None \<Rightarrow> None
                   | Some (x, s4) \<Rightarrow> Some (sign @ i @ f @ x, s4))))"

definition jsonWord :: "jsstring \<Rightarrow> json \<Rightarrow> jsstring \<Rightarrow> (json \<times> jsstring) option" where
  "jsonWord w v s = (if prefix w s then Some (v, drop (length w) s) else None)"

text \<open>
  A value, the elements of an array after its bracket and the members of an object
  after its brace, each with the text left over. The comparisons of lengths hold
  whenever they are reached: they are what shows that the parser comes to an end.
\<close>

function jsonValue :: "jsstring \<Rightarrow> (json \<times> jsstring) option"
  and jsonElements :: "jsstring \<Rightarrow> (json list \<times> jsstring) option"
  and jsonMembers :: "jsstring \<Rightarrow> ((jsstring \<times> json) list \<times> jsstring) option"
where
  "jsonValue s =
     (case skipSpace s of
        [] \<Rightarrow> None
      | c # cs \<Rightarrow>
          if c = 0x7B then
            (case skipSpace cs of
               [] \<Rightarrow> None
             | d # r \<Rightarrow>
                 if d = 0x7D then Some (JObject [], r)
                 else map_option (\<lambda>(ms, rest). (JObject ms, rest)) (jsonMembers cs))
          else if c = 0x5B then
            (case skipSpace cs of
               [] \<Rightarrow> None
             | d # r \<Rightarrow>
                 if d = 0x5D then Some (JArray [], r)
                 else map_option (\<lambda>(vs, rest). (JArray vs, rest)) (jsonElements cs))
          else if c = 0x22 then map_option (\<lambda>(t, rest). (JString t, rest)) (jsonStringChars cs)
          else if c = 0x74 then jsonWord (js ''true'') (JBool True) (c # cs)
          else if c = 0x66 then jsonWord (js ''false'') (JBool False) (c # cs)
          else if c = 0x6E then jsonWord (js ''null'') JNull (c # cs)
          else map_option (\<lambda>(t, rest). (JNumber t, rest)) (jsonNumber (c # cs)))"
| "jsonElements s =
     (case jsonValue s of
        None \<Rightarrow> None
      | Some (v, r) \<Rightarrow>
          (case skipSpace r of
             [] \<Rightarrow> None
           | d # r' \<Rightarrow>
               if d = 0x5D then Some ([v], r')
               else if d = 0x2C \<and> length r' < length s
               then map_option (\<lambda>(vs, rest). (v # vs, rest)) (jsonElements r')
               else None))"
| "jsonMembers s =
     (case skipSpace s of
        [] \<Rightarrow> None
      | q # s1 \<Rightarrow>
          if q = 0x22 then
            (case jsonStringChars s1 of
               None \<Rightarrow> None
             | Some (k, s2) \<Rightarrow>
                 (case skipSpace s2 of
                    [] \<Rightarrow> None
                  | col # s3 \<Rightarrow>
                      if col = 0x3A \<and> length s3 < length s then
                        (case jsonValue s3 of
                           None \<Rightarrow> None
                         | Some (v, r) \<Rightarrow>
                             (case skipSpace r of
                                [] \<Rightarrow> None
                              | d # r' \<Rightarrow>
                                  if d = 0x7D then Some ([(k, v)], r')
                                  else if d = 0x2C \<and> length r' < length s
                                  then map_option (\<lambda>(ms, rest). ((k, v) # ms, rest)) (jsonMembers r')
                                  else None))
                      else None))
          else None)"
  by pat_completeness auto
termination
proof (relation "measure (\<lambda>x. case x of Inl s \<Rightarrow> 2 * length s
                                | Inr (Inl s) \<Rightarrow> 2 * length s + 1
                                | Inr (Inr s) \<Rightarrow> 2 * length s + 1)", goal_cases)
  case 1
  show ?case by simp
next
  case (2 s c cs d r)
  have "length (skipSpace s) \<le> length s"
    unfolding skipSpace_def by (rule length_dropWhile_le)
  with 2 show ?case by simp
next
  case (3 s c cs d r)
  have "length (skipSpace s) \<le> length s"
    unfolding skipSpace_def by (rule length_dropWhile_le)
  with 3 show ?case by simp
qed simp_all

text \<open>\<open>JSON.parse(text)\<close>: one value and nothing but white space after it.\<close>

definition JSON_parse :: "jsstring \<Rightarrow> exn + json" where
  "JSON_parse s =
     (case jsonValue s of
        None \<Rightarrow> Inl (SyntaxError SyntaxErrorText)
      | Some (v, r) \<Rightarrow> if skipSpace r = [] then Inr v else Inl (SyntaxError SyntaxErrorText))"

section \<open>The SDK (src/index.ts)\<close>

subsection \<open>The types of src/types.ts\<close>

record JobData =
  job_id :: jsstring
  job_title :: jsstring
  job_description :: jsstring
  job_city :: jsstring
  job_state :: jsstring
  job_date :: jsstring
  job_created_at :: jsstring
  job_images :: "jsstring list"
  job_site :: jsstring
  job_tags :: jsstring
  job_categories :: jsstring
  job_brand :: jsstring
  job_service :: jsstring
  job_zipcode :: jsstring
  job_brands :: "jsstring list"
  job_services :: "jsstring list"
  job_street :: jsstring
  employee :: "jsstring option"

record SDKConfig =
  apiUrl :: jsstring
  apiKey :: "jsstring option"
  secret :: "jsstring option"

record WebhookVerificationResult =
  isValid :: bool
  payload :: "json option"
  error :: "message option"

text \<open>
  \<open>createHmac('sha256', key).update(body, 'utf8').digest()\<close> is a parameter of the
  model: a function from the key and the body to the bytes of the digest.
\<close>

type_synonym hmac = "jsstring \<Rightarrow> jsstring \<Rightarrow> bytes"

subsection \<open>verifyWebhook\<close>

text \<open>The body of the \<open>try\<close> block: what it returns, or what it throws.\<close>

definition verifyWebhookTry ::
  "hmac \<Rightarrow> SDKConfig \<Rightarrow> jsstring \<Rightarrow> jsstring \<Rightarrow> jsstring option \<Rightarrow> exn + WebhookVerificationResult"
where
  "verifyWebhookTry hmacSha256 config body signature secretArg =
     (let webhookSecret = (if truthy secretArg then secretArg else secret config)
      in case webhookSecret of
           None \<Rightarrow>
             Inr \<lparr>isValid = False, payload = None,
                  error = Some (Msg (js ''No webhook secret provided''))\<rparr>
         | Some key \<Rightarrow>
             if key = [] then
               Inr \<lparr>isValid = False, payload = None,
                    error = Some (Msg (js ''No webhook secret provided''))\<rparr>
             else
               (let expectedSignature = hexEncode (hmacSha256 key body);
                    cleanSignature = replaceFirst (js ''sha256='') [] signature
                in case timingSafeEqual (hexDecode expectedSignature) (hexDecode cleanSignature) of
                     Inl e \<Rightarrow> Inl e
                   | Inr valid \<Rightarrow>
                       if \<not> valid then
                         Inr \<lparr>isValid = False, payload = None,
                              error = Some (Msg (js ''Invalid signature''))\<rparr>
                       else
                         (case JSON_parse body of
                            Inl e \<Rightarrow> Inl e
                          | Inr p \<Rightarrow> Inr \<lparr>isValid = True, payload = Some p, error = None\<rparr>)))"

text \<open>The \<open>catch\<close> turns whatever was thrown into a failed result with its message.\<close>

definition verifyWebhook ::
  "hmac \<Rightarrow> SDKConfig \<Rightarrow> jsstring \<Rightarrow> jsstring \<Rightarrow> jsstring option \<Rightarrow> WebhookVerificationResult"
where
  "verifyWebhook hmacSha256 config body signature secretArg =
     (case verifyWebhookTry hmacSha256 config body signature secretArg of
        Inl e \<Rightarrow> \<lparr>isValid = False, payload = None, error = Some (messageOf e)\<rparr>
      | Inr result \<Rightarrow> result)"

subsection \<open>registerWebhook and unregisterWebhook\<close>

text \<open>
  What an axios call gives back: a response, or a thrown value. axios throws an
  \<open>AxiosError\<close>, which carries the response when the server answered with a failing
  status and none when the request never got an answer.
\<close>

record 'a AxiosResponse =
  status :: nat
  statusText :: jsstring
  headers :: "jsstring \<Rightarrow> jsstring option"
  data :: 'a

text \<open>
  A thrown value is an \<open>AxiosError\<close> with its message and its response, another
  \<open>Error\<close>, another value that is no \<open>Error\<close>, or \<open>undefined\<close> or \<open>null\<close>.
\<close>

datatype thrown =
    AxiosError message "json AxiosResponse option"
  | ErrorObject exn
  | OtherValue
  | Nullish

text \<open>
  \<open>axios.post\<close> and \<open>axios.delete\<close> are parameters: functions from the request
  that the SDK sends to what comes back.
\<close>

record HttpRequest =
  verb :: jsstring
  url :: jsstring
  requestHeaders :: "(jsstring \<times> jsstring) list"
  requestBody :: "json option"

type_synonym axios = "HttpRequest \<Rightarrow> thrown + json AxiosResponse"

text \<open>
  The result of both calls. \<open>unregisterWebhook\<close> returns an object with \<open>success\<close>
  and \<open>error\<close> only; it is the same record with no \<open>webhook_id\<close>. The identifier
  is whatever JSON value the server sent under that name.
\<close>

record WebhookRegistrationResponse =
  success :: bool
  webhook_id :: "json option"
  error :: "message option"

text \<open>An optional string inside a template literal: \<open>undefined\<close> prints as itself.\<close>

definition templateText :: "jsstring option \<Rightarrow> jsstring" where
  "templateText v = (case v of None \<Rightarrow> js ''undefined'' | Some s \<Rightarrow> s)"

text \<open>
  \<open>response.data.webhook_id\<close>: reading a property of \<open>null\<close> throws a
  \<open>TypeError\<close>; an object gives the member of that name (the last one, if the text
  had several) or \<open>undefined\<close>; any other value gives \<open>undefined\<close>.
\<close>

definition readWebhookId :: "json \<Rightarrow> exn + json option" where
  "readWebhookId v =
     (case v of
        JNull \<Rightarrow> Inl (TypeError TypeErrorText)
      | JObject members \<Rightarrow> Inr (map_of (rev members) (js ''webhook_id''))
      | _ \<Rightarrow> Inr None)"

definition registerWebhookTry ::
  "axios \<Rightarrow> SDKConfig \<Rightarrow> jsstring \<Rightarrow> jsstring list option \<Rightarrow> thrown + WebhookRegistrationResponse"
where
  "registerWebhookTry axiosPost config webhookUrl eventsArg =
     (let events = (case eventsArg of None \<Rightarrow> [js ''job.created''] | Some es \<Rightarrow> es)
      in case axiosPost
             \<lparr>verb = js ''POST'',
              url = apiUrl config @ js ''/api/webhooks/register'',
              requestHeaders =
                [(js ''Content-Type'', js ''application/json''),
                 (js ''Authorization'', js ''Bearer '' @ templateText (apiKey config))],
              requestBody =
                Some (JObject [(js ''webhook_url'', JString webhookUrl),
                               (js ''events'', JArray (map JString events))])\<rparr> of
           Inl t \<Rightarrow> Inl t
         | Inr response \<Rightarrow>
             (case readWebhookId (data response) of
                Inl e \<Rightarrow> Inl (ErrorObject e)
              | Inr w \<Rightarrow> Inr \<lparr>success = True, webhook_id = w, error = None\<rparr>))"

text \<open>
  The template \<open>HTTP ${error.response?.status}: ${error.response?.statusText}\<close>, and
  the \<open>catch\<close> block of both functions.
\<close>

definition httpErrorText :: "json AxiosResponse option \<Rightarrow> jsstring" where
  "httpErrorText response =
     js ''HTTP '' @ (case response of None \<Rightarrow> js ''undefined'' | Some r \<Rightarrow> decimal (status r))
       @ js '': '' @ (case response of None \<Rightarrow> js ''undefined'' | Some r \<Rightarrow> statusText r)"

definition registrationCatch :: "thrown \<Rightarrow> WebhookRegistrationResponse" where
  "registrationCatch t =
     (case t of
        AxiosError m response \<Rightarrow>
          \<lparr>success = False, webhook_id = None, error = Some (Msg (httpErrorText response))\<rparr>
      | ErrorObject e \<Rightarrow> \<lparr>success = False, webhook_id = None, error = Some (messageOf e)\<rparr>
      | OtherValue \<Rightarrow> \<lparr>success = False, webhook_id = None, error = Some (Msg (js ''Unknown error''))\<rparr>
      | Nullish \<Rightarrow> \<lparr>success = False, webhook_id = None, error = Some (Msg (js ''Unknown error''))\<rparr>)"

definition registerWebhook ::
  "axios \<Rightarrow> SDKConfig \<Rightarrow> jsstring \<Rightarrow> jsstring list option \<Rightarrow> WebhookRegistrationResponse"
where
  "registerWebhook axiosPost config webhookUrl eventsArg =
     (case registerWebhookTry axiosPost config webhookUrl eventsArg of
        Inl t \<Rightarrow> registrationCatch t
      | Inr result \<Rightarrow> result)"

definition unregisterWebhook :: "axios \<Rightarrow> SDKConfig \<Rightarrow> jsstring \<Rightarrow> WebhookRegistrationResponse" where
  "unregisterWebhook axiosDelete config webhookId =
     (case axiosDelete
             \<lparr>verb = js ''DELETE'',
              url = apiUrl config @ js ''/api/webhooks/'' @ webhookId,
              requestHeaders = [(js ''Authorization'', js ''Bearer '' @ templateText (apiKey config))],
              requestBody = None\<rparr> of
        Inl t \<Rightarrow> registrationCatch t
      | Inr response \<Rightarrow> \<lparr>success = True, webhook_id = None, error = None\<rparr>)"

subsection \<open>downloadImage and downloadJobImages\<close>

text \<open>
  What the outside world does during one call of \<open>downloadImage\<close>: the answer of
  \<open>axios.get\<close>, and whether \<open>mkdir\<close> and \<open>writeFile\<close> throw.
\<close>

record ImageIO =
  fetched :: "thrown + bytes AxiosResponse"
  mkdirThrows :: bool
  writeFileThrows :: bool

type_synonym files = "jsstring \<Rightarrow> bytes option"

definition imageExtensions :: "jsstring list" where
  "imageExtensions = [js ''jpg'', js ''jpeg'', js ''png'', js ''gif'', js ''webp'', js ''svg'']"

definition extMap :: "(jsstring \<times> jsstring) list" where
  "extMap =
     [(js ''image/jpeg'', js ''jpg''),
      (js ''image/png'', js ''png''),
      (js ''image/gif'', js ''gif''),
      (js ''image/webp'', js ''webp''),
      (js ''image/svg+xml'', js ''svg'')]"

text \<open>
  \<open>extMap\<close> is an object literal, so a read \<open>extMap[key]\<close> that finds no property of
  its own goes on to \<open>Object.prototype\<close>. These are the properties found there, each
  with the text a template literal prints for its value (V8 prints a built-in function
  as \<open>function name() { [native code] }\<close>, and \<open>Object.prototype\<close> itself, the value
  of \<open>__proto__\<close>, as \<open>[object Object]\<close>).
\<close>

definition nativeFunctionText :: "jsstring \<Rightarrow> jsstring" where
  "nativeFunctionText name = js ''function '' @ name @ js ''() { [native code] }''"

definition objectPrototype :: "(jsstring \<times> jsstring) list" where
  "objectPrototype =
     [(js ''constructor'', nativeFunctionText (js ''Object''))]
     @ map (\<lambda>name. (name, nativeFunctionText name))
         [js ''__defineGetter__'', js ''__defineSetter__'', js ''hasOwnProperty'',
          js ''__lookupGetter__'', js ''__lookupSetter__'', js ''isPrototypeOf'',
          js ''propertyIsEnumerable'', js ''toString'', js ''valueOf'', js ''toLocaleString'']
     @ [(js ''__proto__'', js ''[object Object]'')]"

definition extMapGet :: "jsstring \<Rightarrow> jsstring option" where
  "extMapGet key =
     (case map_of extMap key of
        Some ext \<Rightarrow> Some ext
      | None \<Rightarrow> map_of objectPrototype key)"

text \<open>
  \<open>imageUrl.split('.').pop()?.split('?')[0]\<close>: what follows the last dot of the URL,
  up to its first question mark.
\<close>

definition urlExtensionOf :: "jsstring \<Rightarrow> jsstring option" where
  "urlExtensionOf imageUrl =
     (case pop (splitOn 0x2E imageUrl) of
        None \<Rightarrow> None
      | Some piece \<Rightarrow> first (splitOn 0x3F piece))"

text \<open>
  The condition of the first \<open>if\<close>: the URL's extension is a non-empty string and its
  lower-case form is in the list. Where it holds, the lower-case form is the result.
\<close>

definition listedExtension :: "jsstring option \<Rightarrow> jsstring option" where
  "listedExtension urlExtension =
     (case urlExtension of
        None \<Rightarrow> None
      | Some u \<Rightarrow>
          if u \<noteq> [] \<and> toLowerCase u \<in> set imageExtensions then Some (toLowerCase u)
          else None)"

text \<open>
  \<open>path.join\<close> and \<open>process.cwd()\<close> are parameters. The files are a map from
  paths to contents; a call returns its result and the files as it leaves them. Whatever
  is thrown inside the \<open>try\<close> is caught, and the URL is returned. The index is a
  natural number, as the loop of \<open>downloadJobImages\<close> counts it. A missing
  \<open>publicDir\<close> argument (\<open>None\<close>) takes the default.
\<close>

definition downloadImage ::
  "(jsstring \<Rightarrow> jsstring \<Rightarrow> jsstring) \<Rightarrow> jsstring \<Rightarrow> ImageIO \<Rightarrow> files
     \<Rightarrow> jsstring \<Rightarrow> jsstring \<Rightarrow> nat \<Rightarrow> jsstring option \<Rightarrow> jsstring \<times> files"
where
  "downloadImage join cwd io files imageUrl jobId index publicDirArg =
     (let publicDir = (case publicDirArg of None \<Rightarrow> js ''public/jobs'' | Some d \<Rightarrow> d)
      in case fetched io of
           Inl t \<Rightarrow> (imageUrl, files)
         | Inr response \<Rightarrow>
             (let buffer = data response;
                  urlExtension = urlExtensionOf imageUrl;
                  contentType = headers response (js ''content-type'');
                  extension =
                    (case listedExtension urlExtension of
                       Some lower \<Rightarrow> lower
                     | None \<Rightarrow>
                         (case contentType of
                            None \<Rightarrow> js ''jpg''
                          | Some ct \<Rightarrow>
                              if ct = [] then js ''jpg''
                              else (case extMapGet ct of
                                      Some ext \<Rightarrow> ext
                                    | None \<Rightarrow> js ''jpg'')));
                  filename = js ''job-'' @ jobId @ js ''-'' @ decimal index @ js ''.'' @ extension;
                  fullPublicDir = join cwd publicDir;
                  filePath = join fullPublicDir filename
              in if mkdirThrows io then (imageUrl, files)
                 else if writeFileThrows io then (imageUrl, files)
                 else (js ''/'' @ replaceFirst (js ''public/'') [] publicDir @ js ''/'' @ filename,
                       files(filePath \<mapsto> buffer))))"

text \<open>
  The \<open>for\<close> loop of \<open>downloadJobImages\<close>, from the counter \<open>i\<close> and the paths
  pushed so far. The call for image \<open>i\<close> meets the outside world \<open>io i\<close>.
\<close>

function downloadLoop ::
  "(jsstring \<Rightarrow> jsstring \<Rightarrow> jsstring) \<Rightarrow> jsstring \<Rightarrow> (nat \<Rightarrow> ImageIO) \<Rightarrow> JobData \<Rightarrow> jsstring
     \<Rightarrow> nat \<Rightarrow> jsstring list \<Rightarrow> files \<Rightarrow> jsstring list \<times> files"
where
  "downloadLoop join cwd io jobData publicDir i localImagePaths files =
     (if i < length (job_images jobData) then
        (let imageUrl = job_images jobData ! i;
             (localPath, files') =
               downloadImage join cwd (io i) files imageUrl (job_id jobData) i (Some publicDir)
         in downloadLoop join cwd io jobData publicDir (i + 1) (localImagePaths @ [localPath]) files')
      else (localImagePaths, files))"
  by pat_completeness auto
termination
  by (relation "measure (\<lambda>(join, cwd, io, jobData, publicDir, i, acc, files).
        length (job_images jobData) - i)") auto

declare downloadLoop.simps [simp del]

definition downloadJobImages ::
  "(jsstring \<Rightarrow> jsstring \<Rightarrow> jsstring) \<Rightarrow> jsstring \<Rightarrow> (nat \<Rightarrow> ImageIO) \<Rightarrow> files
     \<Rightarrow> JobData \<Rightarrow> jsstring option \<Rightarrow> jsstring list \<times> files"
where
  "downloadJobImages join cwd io files jobData publicDirArg =
     (let publicDir = (case publicDirArg of None \<Rightarrow> js ''public/jobs'' | Some d \<Rightarrow> d)
      in if length (job_images jobData) > 0
         then downloadLoop join cwd io jobData publicDir 0 [] files
         else ([], files))"

section \<open>The second copy of the SDK (src/unnamed/part_001)\<close>

text \<open>
  The repository holds a second file with the same class. Its \<open>verifyWebhook\<close> is
  embedded on its own, statement by statement, so that the two can be compared.
\<close>

definition verifyWebhookTry_copy ::
  "hmac \<Rightarrow> SDKConfig \<Rightarrow> jsstring \<Rightarrow> jsstring \<Rightarrow> jsstring option \<Rightarrow> exn + WebhookVerificationResult"
where
  "verifyWebhookTry_copy hmacSha256 config body signature secretArg =
     (let webhookSecret = (if truthy secretArg then secretArg else secret config)
      in case webhookSecret of
           None \<Rightarrow>
             Inr \<lparr>isValid = False, payload = None,
                  error = Some (Msg (js ''No webhook secret provided''))\<rparr>
         | Some key \<Rightarrow>
             if key = [] then
               Inr \<lparr>isValid = False, payload = None,
                    error = Some (Msg (js ''No webhook secret provided''))\<rparr>
             else
               (let expectedSignature = hexEncode (hmacSha256 key body);
                    cleanSignature = replaceFirst (js ''sha256='') [] signature
                in case timingSafeEqual (hexDecode expectedSignature) (hexDecode cleanSignature) of
                     Inl e \<Rightarrow> Inl e
                   | Inr valid \<Rightarrow>
                       if \<not> valid then
                         Inr \<lparr>isValid = False, payload = None,
                              error = Some (Msg (js ''Invalid signature''))\<rparr>
                       else
                         (case JSON_parse body of
                            Inl e \<Rightarrow> Inl e
                          | Inr p \<Rightarrow> Inr \<lparr>isValid = True, payload = Some p, error = None\<rparr>)))"

definition verifyWebhook_copy ::
  "hmac \<Rightarrow> SDKConfig \<Rightarrow> jsstring \<Rightarrow> jsstring \<Rightarrow> jsstring option \<Rightarrow> WebhookVerificationResult"
where
  "verifyWebhook_copy hmacSha256 config body signature secretArg =
     (case verifyWebhookTry_copy hmacSha256 config body signature secretArg of
        Inl e \<Rightarrow> \<lparr>isValid = False, payload = None, error = Some (messageOf e)\<rparr>
      | Inr result \<Rightarrow> result)"

text \<open>
  The \<open>try\<close> blocks of its \<open>registerWebhook\<close> and \<open>unregisterWebhook\<close> have the
  statements of src/index.ts. Its \<open>catch\<close> asks whether the thrown value has a
  response, where src/index.ts asks whether it is an \<open>AxiosError\<close>. Reading the
  response of \<open>undefined\<close> or \<open>null\<close> throws a \<open>TypeError\<close> inside the
  \<open>catch\<close>, which leaves the call: these two functions return a result or throw.
\<close>

definition registrationCatch_copy :: "thrown \<Rightarrow> exn + WebhookRegistrationResponse" where
  "registrationCatch_copy t =
     (case t of
        AxiosError m response \<Rightarrow>
          (case response of
             Some r \<Rightarrow>
               Inr \<lparr>success = False, webhook_id = None, error = Some (Msg (httpErrorText (Some r)))\<rparr>
           | None \<Rightarrow> Inr \<lparr>success = False, webhook_id = None, error = Some m\<rparr>)
      | ErrorObject e \<Rightarrow> Inr \<lparr>success = False, webhook_id = None, error = Some (messageOf e)\<rparr>
      | OtherValue \<Rightarrow>
          Inr \<lparr>success = False, webhook_id = None, error = Some (Msg (js ''Unknown error''))\<rparr>
      | Nullish \<Rightarrow> Inl (TypeError TypeErrorText))"

definition registerWebhook_copy ::
  "axios \<Rightarrow> SDKConfig \<Rightarrow> jsstring \<Rightarrow> jsstring list option \<Rightarrow> exn + WebhookRegistrationResponse"
where
  "registerWebhook_copy axiosPost config webhookUrl eventsArg =
     (case registerWebhookTry axiosPost config webhookUrl eventsArg of
        Inl t \<Rightarrow> registrationCatch_copy t
      | Inr result \<Rightarrow> Inr result)"

definition unregisterWebhook_copy ::
  "axios \<Rightarrow> SDKConfig \<Rightarrow> jsstring \<Rightarrow> exn + WebhookRegistrationResponse"
where
  "unregisterWebhook_copy axiosDelete config webhookId =
     (case axiosDelete
             \<lparr>verb = js ''DELETE'',
              url = apiUrl config @ js ''/api/webhooks/'' @ webhookId,
              requestHeaders = [(js ''Authorization'', js ''Bearer '' @ templateText (apiKey config))],
              requestBody = None\<rparr> of
        Inl t \<Rightarrow> registrationCatch_copy t
      | Inr response \<Rightarrow> Inr \<lparr>success = True, webhook_id = None, error = None\<rparr>)"

section \<open>The webhook route of the README (src/unnamed/part_000)\<close>

subsection \<open>createSlug\<close>

text \<open>
  The classes of the regular expressions, which have no \<open>u\<close> flag and read one code
  unit at a time: the word class is \<open>[A-Za-z0-9_]\<close>, and the space class is the
  white space and the line terminators of ECMAScript.
\<close>

definition isWordUnit :: "16 word \<Rightarrow> bool" where
  "isWordUnit c =
     ((0x41 \<le> c \<and> c \<le> 0x5A) \<or> (0x61 \<le> c \<and> c \<le> 0x7A) \<or> (0x30 \<le> c \<and> c \<le> 0x39) \<or> c = 0x5F)"

definition isSpaceUnit :: "16 word \<Rightarrow> bool" where
  "isSpaceUnit c =
     ((0x09 \<le> c \<and> c \<le> 0x0D) \<or> c = 0x20 \<or> c = 0xA0 \<or> c = 0x1680
      \<or> (0x2000 \<le> c \<and> c \<le> 0x200A) \<or> c = 0x2028 \<or> c = 0x2029 \<or> c = 0x202F
      \<or> c = 0x205F \<or> c = 0x3000 \<or> c = 0xFEFF)"

text \<open>\<open>replace(/[^...]/g, '')\<close>: every unit outside the class goes.\<close>

definition keepOnly :: "(16 word \<Rightarrow> bool) \<Rightarrow> jsstring \<Rightarrow> jsstring" where
  "keepOnly keep s = filter keep s"

text \<open>\<open>replace(/[...]+/g, rep)\<close>: every longest run of units of the class becomes \<open>rep\<close>.\<close>

function replaceRuns :: "(16 word \<Rightarrow> bool) \<Rightarrow> jsstring \<Rightarrow> jsstring \<Rightarrow> jsstring" where
  "replaceRuns inClass rep [] = []"
| "replaceRuns inClass rep (c # cs) =
     (if inClass c then rep @ replaceRuns inClass rep (dropWhile inClass cs)
      else c # replaceRuns inClass rep cs)"
  by pat_completeness auto
termination
  by (relation "measure (\<lambda>(inClass, rep, s). length s)")
    (auto simp: le_imp_less_Suc length_dropWhile_le)

text \<open>\<open>replace(/^-+|-+$/g, '')\<close>: the hyphens at the start go, then those at the end.\<close>

definition trimHyphens :: "jsstring \<Rightarrow> jsstring" where
  "trimHyphens s = rev (dropWhile (\<lambda>c. c = 0x2D) (rev (dropWhile (\<lambda>c. c = 0x2D) s)))"

definition createSlug :: "jsstring \<Rightarrow> jsstring" where
  "createSlug title =
     trimHyphens
       (replaceRuns (\<lambda>c. isSpaceUnit c \<or> c = 0x5F \<or> c = 0x2D) (js ''-'')
          (keepOnly (\<lambda>c. isWordUnit c \<or> isSpaceUnit c \<or> c = 0x2D) (toLowerCase title)))"

subsection \<open>The catalog file\<close>

record Job = JobData +
  slug :: jsstring

text \<open>
  \<open>data/jobs.json\<close> holds the catalog, an array of jobs; \<open>None\<close> stands for a file
  that is missing or does not parse, where \<open>readFile\<close> or \<open>JSON.parse\<close> throws.
  Writing the file is taken to succeed.
\<close>

type_synonym jobsFile = "Job list option"

datatype fileError = CannotRead

definition readJobs :: "jobsFile \<Rightarrow> fileError + Job list" where
  "readJobs file = (case file of None \<Rightarrow> Inl CannotRead | Some jobs \<Rightarrow> Inr jobs)"

text \<open>\<open>Array.prototype.findIndex\<close>: the first index whose element passes, or -1.\<close>

fun findIndexFrom :: "('a \<Rightarrow> bool) \<Rightarrow> 'a list \<Rightarrow> int \<Rightarrow> int" where
  "findIndexFrom p [] i = - 1"
| "findIndexFrom p (x # xs) i = (if p x then i else findIndexFrom p xs (i + 1))"

definition findIndex :: "('a \<Rightarrow> bool) \<Rightarrow> 'a list \<Rightarrow> int" where
  "findIndex p xs = findIndexFrom p xs 0"

text \<open>
  The handlers return the file as they leave it and the paths they hand to
  \<open>revalidatePath\<close>, in order.
\<close>

definition handleJobCreatedOrUpdated :: "jobsFile \<Rightarrow> JobData \<Rightarrow> jobsFile \<times> jsstring list" where
  "handleJobCreatedOrUpdated file jobData =
     (let jobs = (case readJobs file of Inl err \<Rightarrow> [] | Inr parsed \<Rightarrow> parsed);
          slug = createSlug (job_title jobData);
          existingIndex = findIndex (\<lambda>j. job_id j = job_id jobData) jobs;
          jobWithSlug = JobData.extend jobData (Job.fields slug);
          jobs' = (if existingIndex \<ge> 0 then jobs[nat existingIndex := jobWithSlug]
                   else jobs @ [jobWithSlug])
      in (Some jobs', [js ''/jobs/'' @ slug, js ''/jobs'']))"

definition handleJobDeleted :: "jobsFile \<Rightarrow> JobData \<Rightarrow> jobsFile \<times> jsstring list" where
  "handleJobDeleted file jobData =
     (case readJobs file of
        Inl err \<Rightarrow> (file, [])
      | Inr jobs \<Rightarrow> (Some (filter (\<lambda>j. job_id j \<noteq> job_id jobData) jobs), [js ''/jobs'']))"

section \<open>Notions of the specification and examples\<close>

text \<open>
  Hexadecimal text has hexadecimal digits only. Valid hexadecimal text, as the
  specification speaks of it, has two of them for each byte.
\<close>

definition isHexDigits :: "jsstring \<Rightarrow> bool" where
  "isHexDigits s = list_all (\<lambda>c. unhex c \<noteq> None) s"

definition isHexText :: "jsstring \<Rightarrow> bool" where
  "isHexText s = (isHexDigits s \<and> even (length s))"

text \<open>
  A digest function and a configuration for the examples. The digest has the 32
  bytes of a SHA-256 digest; its bytes are not those of HMAC, which no example needs.
\<close>

definition exampleDigest :: hmac where
  "exampleDigest key body = replicate 32 (of_nat (length key + length body))"

definition exampleConfig :: SDKConfig where
  "exampleConfig = \<lparr>apiUrl = js ''https://api.example.com'', apiKey = None,
                     secret = Some (js ''test-secret'')\<rparr>"

text \<open>
  A configuration without a secret, and a text with every unit raised by 0x100: its
  units are no hexadecimal digits, and their low bytes are the units of the text.
\<close>

definition noSecretConfig :: SDKConfig where
  "noSecretConfig = \<lparr>apiUrl = js ''https://api.example.com'', apiKey = None, secret = None\<rparr>"

definition raisedDigits :: "jsstring \<Rightarrow> jsstring" where
  "raisedDigits s = map (\<lambda>c. c + 0x100) s"

text \<open>
  The catalog that a file holds: empty when the file cannot be read. The record stored
  for an incoming job is the job with the slug of its title.
\<close>

definition catalog :: "jobsFile \<Rightarrow> Job list" where
  "catalog file = (case file of None \<Rightarrow> [] | Some jobs \<Rightarrow> jobs)"

definition storedJob :: "JobData \<Rightarrow> Job" where
  "storedJob jobData = JobData.extend jobData (Job.fields (createSlug (job_title jobData)))"

definition exampleJob :: "jsstring \<Rightarrow> jsstring \<Rightarrow> JobData" where
  "exampleJob ident title =
     \<lparr>job_id = ident, job_title = title, job_description = [], job_city = [], job_state = [],
      job_date = [], job_created_at = [], job_images = [], job_site = [], job_tags = [],
      job_categories = [], job_brand = [], job_service = [], job_zipcode = [], job_brands = [],
      job_services = [], job_street = [], employee = None\<rparr>"

text \<open>
  The four steps of slugify as the specification words them: lower-case the title,
  keep only the characters named in step 2, turn every run of white space, underscores
  and hyphens into one hyphen, and trim the hyphens at both ends. Step 3 is written as
  one pass that remembers whether it is inside a run. \<open>slugify\<close> keeps in step 2
  what the specification names (alphanumeric, white space, hyphen);
  \<open>slugifyKeepingUnderscore\<close> keeps the underscore as well.
\<close>

definition isAlphanumeric :: "16 word \<Rightarrow> bool" where
  "isAlphanumeric c =
     ((0x61 \<le> c \<and> c \<le> 0x7A) \<or> (0x41 \<le> c \<and> c \<le> 0x5A) \<or> (0x30 \<le> c \<and> c \<le> 0x39))"

definition isSeparator :: "16 word \<Rightarrow> bool" where
  "isSeparator c = (isSpaceUnit c \<or> c = 0x5F \<or> c = 0x2D)"

fun collapseFrom :: "bool \<Rightarrow> jsstring \<Rightarrow> jsstring" where
  "collapseFrom inRun [] = []"
| "collapseFrom inRun (c # cs) =
     (if isSeparator c then (if inRun then collapseFrom True cs else 0x2D # collapseFrom True cs)
      else c # collapseFrom False cs)"

definition slugifySteps :: "(16 word \<Rightarrow> bool) \<Rightarrow> jsstring \<Rightarrow> jsstring" where
  "slugifySteps kept title =
     (let lowered = toLowerCase title;
          cleaned = filter kept lowered;
          collapsed = collapseFrom False cleaned
      in rev (dropWhile (\<lambda>c. c = 0x2D) (rev (dropWhile (\<lambda>c. c = 0x2D) collapsed))))"

definition slugify :: "jsstring \<Rightarrow> jsstring" where
  "slugify title = slugifySteps (\<lambda>c. isAlphanumeric c \<or> isSpaceUnit c \<or> c = 0x2D) title"

definition slugifyKeepingUnderscore :: "jsstring \<Rightarrow> jsstring" where
  "slugifyKeepingUnderscore title =
     slugifySteps (\<lambda>c. isAlphanumeric c \<or> c = 0x5F \<or> isSpaceUnit c \<or> c = 0x2D) title"

text \<open>
  A call of \<open>downloadImage\<close> fails when \<open>axios.get\<close>, \<open>mkdir\<close> or
  \<open>writeFile\<close> throws.
\<close>

definition imageFails :: "ImageIO \<Rightarrow> bool" where
  "imageFails io = (isl (fetched io) \<or> mkdirThrows io \<or> writeFileThrows io)"

text \<open>
  The rule for the extension with its three clauses: the extension of the URL when it
  is listed, else the content type looked up in the table, else \<open>jpg\<close>. The
  extension of the URL is read as the code reads it (what follows the last dot, up to
  the first question mark, in lower case), which is not always the suffix of the URL's
  path: \<open>a.png?v=1.2\<close> has the extension \<open>2\<close>.
\<close>

definition extensionRule :: "jsstring \<Rightarrow> jsstring option \<Rightarrow> jsstring" where
  "extensionRule imageUrl contentType =
     (case listedExtension (urlExtensionOf imageUrl) of
        Some lower \<Rightarrow> lower
      | None \<Rightarrow>
          (case contentType of
             None \<Rightarrow> js ''jpg''
           | Some ct \<Rightarrow> (case map_of extMap ct of Some ext \<Rightarrow> ext | None \<Rightarrow> js ''jpg'')))"

text \<open>
  An outside world for the examples: paths are joined with a slash, the second download
  fails, and the others answer with two bytes and a content type.
\<close>

definition exampleJoin :: "jsstring \<Rightarrow> jsstring \<Rightarrow> jsstring" where
  "exampleJoin a b = a @ js ''/'' @ b"

definition exampleResponse :: "jsstring option \<Rightarrow> bytes AxiosResponse" where
  "exampleResponse contentType =
     \<lparr>status = 200, statusText = js ''OK'',
      headers = (\<lambda>name. if name = js ''content-type'' then contentType else None),
      data = [0x89, 0x50]\<rparr>"

definition exampleIO :: "nat \<Rightarrow> ImageIO" where
  "exampleIO i =
     (if i = 1
      then \<lparr>fetched = Inl (AxiosError (Msg (js ''Network Error'')) None),
            mkdirThrows = False, writeFileThrows = False\<rparr>
      else \<lparr>fetched = Inr (exampleResponse (Some (js ''image/png''))),
            mkdirThrows = False, writeFileThrows = False\<rparr>)"

definition exampleImages :: JobData where
  "exampleImages =
     (exampleJob (js ''42'') (js ''Roof Repair''))
       \<lparr>job_images := [js ''https://cdn.example.com/a.PNG?v=2'',
                       js ''https://cdn.example.com/b.png'',
                       js ''https://cdn.example.com/c'']\<rparr>"

definition inheritedIO :: ImageIO where
  "inheritedIO =
     \<lparr>fetched = Inr (exampleResponse (Some (js ''constructor''))),
      mkdirThrows = False, writeFileThrows = False\<rparr>"

section \<open>Properties\<close>

subsection \<open>The two copies of verifyWebhook\<close>

text \<open>
  C10. The \<open>verifyWebhook\<close> of src/index.ts and the one of the second copy return the
  same result for every body, signature, secret argument and configured secret,
  whatever the digest function is.
\<close>

theorem verifyWebhook_copies_agree:
  "verifyWebhook_copy hmacSha256 config body signature secretArg =
   verifyWebhook hmacSha256 config body signature secretArg"
  unfolding verifyWebhook_copy_def verifyWebhook_def verifyWebhookTry_copy_def verifyWebhookTry_def
  by (rule refl)

subsection \<open>Strings, hexadecimal text and JSON\<close>

lemma js_eq_Nil [simp]: "(js s = []) = (s = [])"
  by (simp add: js_def)

lemma js_sha256: "js ''sha256='' = 0x73 # js ''ha256=''"
  by (simp add: js_def)

lemma replaceFirst_prefix: "pat \<noteq> [] \<Longrightarrow> replaceFirst pat rep (pat @ s) = rep @ s"
  by (cases pat) simp_all

lemma replaceFirst_absent: "p \<notin> set s \<Longrightarrow> replaceFirst (p # ps) rep s = s"
  by (induction s) auto

lemma digit_cases:
  "d < 16 \<Longrightarrow>
     d = 0 \<or> d = 1 \<or> d = 2 \<or> d = 3 \<or> d = 4 \<or> d = 5 \<or> d = 6 \<or> d = 7 \<or>
     d = 8 \<or> d = 9 \<or> d = 10 \<or> d = 11 \<or> d = 12 \<or> d = 13 \<or> d = 14 \<or> d = (15::nat)"
  by arith

lemma unhex_hexDigit: "d < 16 \<Longrightarrow> unhex (hexDigit d) = Some d"
  by (drule digit_cases) (elim disjE; simp add: unhex_def hexDigit_def)

lemma unhexUnit_hexDigit: "d < 16 \<Longrightarrow> unhexUnit (hexDigit d) = Some d"
  by (drule digit_cases) (elim disjE; simp add: unhexUnit_def unhex_def hexDigit_def)

lemma hexDigit_not_s: "d < 16 \<Longrightarrow> hexDigit d \<noteq> 0x73"
  by (drule digit_cases) (elim disjE; simp add: hexDigit_def)

lemma byte_nibbles: "unat (b :: 8 word) div 16 < 16" "unat b mod 16 < 16"
proof -
  have "unat b < 2 ^ LENGTH(8)" by (rule unsigned_less)
  then show "unat b div 16 < 16" by simp
  show "unat b mod 16 < 16" by simp
qed

text \<open>Decoding undoes encoding, also when other text follows the encoded bytes.\<close>

lemma hexDecode_hexEncode_append: "hexDecode (hexEncode bs @ t) = bs @ hexDecode t"
proof (induction bs)
  case Nil
  then show ?case by (simp add: hexEncode_def)
next
  case (Cons b bs)
  have "of_nat (16 * (unat b div 16) + unat b mod 16) = b"
    by simp
  with Cons show ?case
    by (simp add: hexEncode_def unhexUnit_hexDigit byte_nibbles)
qed

lemma hexDecode_hexEncode: "hexDecode (hexEncode bs) = bs"
  using hexDecode_hexEncode_append [of bs "[]"] by simp

lemma s_notin_hexEncode: "0x73 \<notin> set (hexEncode bs)"
  using hexDigit_not_s [OF byte_nibbles(1)] hexDigit_not_s [OF byte_nibbles(2)]
  by (induction bs) (auto simp: hexEncode_def)

lemma isHexDigits_hexEncode: "isHexDigits (hexEncode bs)"
  by (induction bs) (simp_all add: isHexDigits_def hexEncode_def unhex_hexDigit byte_nibbles)

text \<open>What \<open>signature.replace('sha256=', '')\<close> leaves of a signature.\<close>

lemma cleanSignature_hex: "isHexDigits h \<Longrightarrow> replaceFirst (js ''sha256='') [] h = h"
proof -
  assume "isHexDigits h"
  then have "0x73 \<notin> set h"
    by (auto simp: isHexDigits_def list_all_iff unhex_def)
  then show ?thesis
    by (simp add: js_sha256 replaceFirst_absent)
qed

lemma cleanSignature_prefixed: "replaceFirst (js ''sha256='') [] (js ''sha256='' @ h) = h"
  using replaceFirst_prefix [of "js ''sha256=''" "[]" h] by simp

lemma cleanSignature_hexEncode: "replaceFirst (js ''sha256='') [] (hexEncode d) = hexEncode d"
  by (simp add: js_sha256 replaceFirst_absent s_notin_hexEncode)

lemma JSON_parse_braces: "JSON_parse (js ''{}'') = Inr (JObject [])"
  by (simp add: JSON_parse_def js_def skipSpace_def isJsonSpace_def)

lemma JSON_parse_oops: "JSON_parse (js ''oops'') = Inl (SyntaxError SyntaxErrorText)"
  by (simp add: JSON_parse_def js_def skipSpace_def isJsonSpace_def jsonNumber_def jsonInt_def
      jsonDigits_def isDigit_def)

subsection \<open>The parser of JSON\<close>

text \<open>
  Every value that the parser reads takes at least one unit of the text, so the
  comparisons of lengths in \<open>jsonElements\<close> and \<open>jsonMembers\<close> never fail: the
  two functions satisfy their equations without them.
\<close>

lemma skipSpace_length: "length (skipSpace s) \<le> length s"
  unfolding skipSpace_def by (rule length_dropWhile_le)

lemma skipSpace_Cons_length: "skipSpace s = c # cs \<Longrightarrow> length cs < length s"
  using skipSpace_length [of s] by simp

lemma jsonStringChars_shorter: "jsonStringChars s = Some (t, r) \<Longrightarrow> length r < length s"
proof (induction s arbitrary: t r rule: jsonStringChars.induct)
  case 1
  then show ?case by simp
next
  case (2 c cs)
  show ?case
  proof (cases "c = 0x22")
    case True
    with "2.prems" show ?thesis by simp
  next
    case notQuote: False
    show ?thesis
    proof (cases "c = 0x5C")
      case True
      show ?thesis
      proof (cases cs)
        case Nil
        with True notQuote "2.prems" show ?thesis by simp
      next
        case (Cons e rest)
        show ?thesis
        proof (cases "e = 0x75")
          case u: True
          with True notQuote Cons "2.prems" obtain x t' where
            h: "hex4 rest = Some x" and rec: "jsonStringChars (drop 4 rest) = Some (t', r)"
            by (auto split: option.splits)
          from "2.IH"(1) [OF notQuote True Cons u h rec] have "length r < length (drop 4 rest)" .
          with Cons show ?thesis by simp
        next
          case nu: False
          with True notQuote Cons "2.prems" obtain x t' where
            h: "jsonEscape e = Some x" and rec: "jsonStringChars rest = Some (t', r)"
            by (auto split: option.splits)
          from "2.IH"(2) [OF notQuote True Cons nu h rec] have "length r < length rest" .
          with Cons show ?thesis by simp
        qed
      qed
    next
      case False
      with notQuote "2.prems" obtain t' where
        ok: "\<not> c < 0x20" and rec: "jsonStringChars cs = Some (t', r)"
        by (auto split: if_splits)
      from "2.IH"(3) [OF notQuote False ok rec] show ?thesis by simp
    qed
  qed
qed

lemma jsonDigits_shorter: "jsonDigits s = Some (t, r) \<Longrightarrow> length r < length s"
proof -
  assume a: "jsonDigits s = Some (t, r)"
  then have ne: "takeWhile isDigit s \<noteq> []" and r: "r = dropWhile isDigit s"
    by (auto simp: jsonDigits_def split: if_splits)
  have "length (takeWhile isDigit s) + length (dropWhile isDigit s) = length s"
    by (metis length_append takeWhile_dropWhile_id)
  with ne r show ?thesis by (cases "takeWhile isDigit s") auto
qed

lemma jsonInt_shorter: "jsonInt s = Some (t, r) \<Longrightarrow> length r < length s"
  by (auto simp: jsonInt_def split: list.splits if_splits dest: jsonDigits_shorter)

lemma jsonFrac_shorter: "jsonFrac s = Some (t, r) \<Longrightarrow> length r \<le> length s"
  by (auto simp: jsonFrac_def split: list.splits if_splits dest!: jsonDigits_shorter)

lemma jsonExp_shorter: "jsonExp s = Some (t, r) \<Longrightarrow> length r \<le> length s"
  by (auto simp: jsonExp_def split: list.splits if_splits dest!: jsonDigits_shorter)

lemma jsonNumber_shorter: "jsonNumber s = Some (t, r) \<Longrightarrow> length r < length s"
proof -
  assume a: "jsonNumber s = Some (t, r)"
  define s1 where "s1 = (case s of [] \<Rightarrow> s | m # rest \<Rightarrow> if m = 0x2D then rest else s)"
  have s1: "length s1 \<le> length s"
    by (simp add: s1_def split: list.splits)
  from a obtain i s2 f s3 x where
    "jsonInt s1 = Some (i, s2)" "jsonFrac s2 = Some (f, s3)" "jsonExp s3 = Some (x, r)"
    by (auto simp: jsonNumber_def s1_def Let_def split: list.splits if_splits option.splits)
  with jsonInt_shorter [of s1 i s2] jsonFrac_shorter [of s2 f s3] jsonExp_shorter [of s3 x r] s1
  show ?thesis by simp
qed

lemma jsonWord_shorter: "jsonWord w v s = Some (x, r) \<Longrightarrow> w \<noteq> [] \<Longrightarrow> length r < length s"
  by (auto simp: jsonWord_def prefix_def split: if_splits)

lemma js_words_nonempty: "js ''true'' \<noteq> []" "js ''false'' \<noteq> []" "js ''null'' \<noteq> []"
  by simp_all

lemma json_shorter_all:
  "(\<forall>v r. jsonValue s = Some (v, r) \<longrightarrow> length r < length s) \<and>
   (\<forall>vs r. jsonElements s = Some (vs, r) \<longrightarrow> length r < length s) \<and>
   (\<forall>ms r. jsonMembers s = Some (ms, r) \<longrightarrow> length r < length s)"
proof (induction "length s" arbitrary: s rule: less_induct)
  case less
  have elementsIH: "length r < length t" if "length t < length s" "jsonElements t = Some (vs, r)" for t vs r
    using less [OF that(1)] that(2) by blast
  have membersIH: "length r < length t" if "length t < length s" "jsonMembers t = Some (ms, r)" for t ms r
    using less [OF that(1)] that(2) by blast
  have valueIH: "length r < length t" if "length t < length s" "jsonValue t = Some (v, r)" for t v r
    using less [OF that(1)] that(2) by blast
  have val: "length r < length s" if a: "jsonValue s = Some (v, r)" for v r
  proof (cases "skipSpace s")
    case Nil
    with a show ?thesis by (subst (asm) jsonValue.simps) simp
  next
    case (Cons c cs)
    note cs = skipSpace_Cons_length [OF Cons]
    have whole: "length (c # cs) \<le> length s"
      using skipSpace_length [of s] Cons by simp
    consider (obj) "c = 0x7B" | (arr) "c = 0x5B" | (str) "c = 0x22" | (tr) "c = 0x74" | (fa) "c = 0x66"
      | (nu) "c = 0x6E" | (num) "c \<noteq> 0x7B" "c \<noteq> 0x5B" "c \<noteq> 0x22" "c \<noteq> 0x74" "c \<noteq> 0x66" "c \<noteq> 0x6E"
      by blast
    then show ?thesis
    proof cases
      case obj
      show ?thesis
      proof (cases "skipSpace cs")
        case Nil
        with a Cons obj show ?thesis by (subst (asm) jsonValue.simps) simp
      next
        case inner: (Cons d r0)
        show ?thesis
        proof (cases "d = 0x7D")
          case True
          with a Cons obj inner have "r = r0" by (subst (asm) jsonValue.simps) simp
          with skipSpace_Cons_length [OF inner] cs show ?thesis by simp
        next
          case False
          with a Cons obj inner obtain ms where "jsonMembers cs = Some (ms, r)"
            by (subst (asm) jsonValue.simps) auto
          from membersIH [OF cs this] cs show ?thesis by simp
        qed
      qed
    next
      case arr
      show ?thesis
      proof (cases "skipSpace cs")
        case Nil
        with a Cons arr show ?thesis by (subst (asm) jsonValue.simps) simp
      next
        case inner: (Cons d r0)
        show ?thesis
        proof (cases "d = 0x5D")
          case True
          with a Cons arr inner have "r = r0" by (subst (asm) jsonValue.simps) simp
          with skipSpace_Cons_length [OF inner] cs show ?thesis by simp
        next
          case False
          with a Cons arr inner obtain vs where "jsonElements cs = Some (vs, r)"
            by (subst (asm) jsonValue.simps) auto
          from elementsIH [OF cs this] cs show ?thesis by simp
        qed
      qed
    next
      case str
      with a Cons obtain t where "jsonStringChars cs = Some (t, r)"
        by (subst (asm) jsonValue.simps) auto
      from jsonStringChars_shorter [OF this] cs show ?thesis by simp
    next
      case tr
      with a Cons have "jsonWord (js ''true'') (JBool True) (c # cs) = Some (v, r)"
        by (subst (asm) jsonValue.simps) simp
      from jsonWord_shorter [OF this js_words_nonempty(1)] whole show ?thesis by simp
    next
      case fa
      with a Cons have "jsonWord (js ''false'') (JBool False) (c # cs) = Some (v, r)"
        by (subst (asm) jsonValue.simps) simp
      from jsonWord_shorter [OF this js_words_nonempty(2)] whole show ?thesis by simp
    next
      case nu
      with a Cons have "jsonWord (js ''null'') JNull (c # cs) = Some (v, r)"
        by (subst (asm) jsonValue.simps) simp
      from jsonWord_shorter [OF this js_words_nonempty(3)] whole show ?thesis by simp
    next
      case num
      with a Cons obtain t where "jsonNumber (c # cs) = Some (t, r)"
        by (subst (asm) jsonValue.simps) auto
      from jsonNumber_shorter [OF this] whole show ?thesis by simp
    qed
  qed
  have elems: "length r < length s" if a: "jsonElements s = Some (vs, r)" for vs r
  proof -
    from a obtain v r1 where v: "jsonValue s = Some (v, r1)"
      by (subst (asm) jsonElements.simps) (auto split: option.splits)
    note r1 = val [OF v]
    from a v obtain d r' where sk: "skipSpace r1 = d # r'"
      by (subst (asm) jsonElements.simps) (auto split: list.splits)
    note r' = skipSpace_Cons_length [OF sk]
    show ?thesis
    proof (cases "d = 0x5D")
      case True
      with a v sk have "r = r'" by (subst (asm) jsonElements.simps) simp
      with r' r1 show ?thesis by simp
    next
      case False
      with a v sk obtain vs' where "jsonElements r' = Some (vs', r)"
        by (subst (asm) jsonElements.simps) (auto split: if_splits)
      from elementsIH [OF _ this] r' r1 show ?thesis by simp
    qed
  qed
  have membs: "length r < length s" if a: "jsonMembers s = Some (ms, r)" for ms r
  proof -
    from a obtain q s1 where q: "skipSpace s = q # s1" "q = 0x22"
      by (subst (asm) jsonMembers.simps) (auto split: list.splits if_splits)
    from a q obtain k s2 where k: "jsonStringChars s1 = Some (k, s2)"
      by (subst (asm) jsonMembers.simps) (auto split: option.splits)
    from a q k obtain col s3 where col: "skipSpace s2 = col # s3" "col = 0x3A" "length s3 < length s"
      by (subst (asm) jsonMembers.simps) (auto split: list.splits if_splits)
    from a q k col obtain v r1 where v: "jsonValue s3 = Some (v, r1)"
      by (subst (asm) jsonMembers.simps) (auto split: option.splits)
    from a q k col v obtain d r' where sk: "skipSpace r1 = d # r'"
      by (subst (asm) jsonMembers.simps) (auto split: list.splits)
    note r1 = valueIH [OF col(3) v]
    note r' = skipSpace_Cons_length [OF sk]
    show ?thesis
    proof (cases "d = 0x7D")
      case True
      with a q k col v sk have "r = r'" by (subst (asm) jsonMembers.simps) simp
      with r' r1 col(3) show ?thesis by simp
    next
      case False
      with a q k col v sk obtain ms' where "jsonMembers r' = Some (ms', r)"
        by (subst (asm) jsonMembers.simps) (auto split: if_splits)
      from membersIH [OF _ this] r' r1 col(3) show ?thesis by simp
    qed
  qed
  from val elems membs show ?case by blast
qed

lemma jsonValue_shorter: "jsonValue s = Some (v, r) \<Longrightarrow> length r < length s"
  using json_shorter_all [of s] by blast

lemma jsonElements_plain:
  "jsonElements s =
     (case jsonValue s of
        None \<Rightarrow> None
      | Some (v, r) \<Rightarrow>
          (case skipSpace r of
             [] \<Rightarrow> None
           | d # r' \<Rightarrow>
               if d = 0x5D then Some ([v], r')
               else if d = 0x2C then map_option (\<lambda>(vs, rest). (v # vs, rest)) (jsonElements r')
               else None))"
proof (cases "jsonValue s")
  case None
  then show ?thesis by (subst jsonElements.simps) simp
next
  case (Some a)
  obtain v r where a: "a = (v, r)" by (cases a)
  from Some a have r: "length r < length s" by (simp add: jsonValue_shorter)
  show ?thesis
  proof (cases "skipSpace r")
    case Nil
    with Some a show ?thesis by (subst jsonElements.simps) simp
  next
    case (Cons d r')
    from skipSpace_Cons_length [OF Cons] r have "length r' < length s" by simp
    with Some a Cons show ?thesis by (subst jsonElements.simps) simp
  qed
qed

lemma jsonMembers_plain:
  "jsonMembers s =
     (case skipSpace s of
        [] \<Rightarrow> None
      | q # s1 \<Rightarrow>
          if q = 0x22 then
            (case jsonStringChars s1 of
               None \<Rightarrow> None
             | Some (k, s2) \<Rightarrow>
                 (case skipSpace s2 of
                    [] \<Rightarrow> None
                  | col # s3 \<Rightarrow>
                      if col = 0x3A then
                        (case jsonValue s3 of
                           None \<Rightarrow> None
                         | Some (v, r) \<Rightarrow>
                             (case skipSpace r of
                                [] \<Rightarrow> None
                              | d # r' \<Rightarrow>
                                  if d = 0x7D then Some ([(k, v)], r')
                                  else if d = 0x2C
                                  then map_option (\<lambda>(ms, rest). ((k, v) # ms, rest)) (jsonMembers r')
                                  else None))
                      else None))
          else None)"
proof (cases "skipSpace s")
  case Nil
  then show ?thesis by (subst jsonMembers.simps) simp
next
  case (Cons q s1)
  note s1 = skipSpace_Cons_length [OF Cons]
  show ?thesis
  proof (cases "jsonStringChars s1")
    case None
    with Cons show ?thesis by (subst jsonMembers.simps) simp
  next
    case (Some a)
    obtain k s2 where a: "a = (k, s2)" by (cases a)
    from Some a have s2: "length s2 < length s1" by (simp add: jsonStringChars_shorter)
    show ?thesis
    proof (cases "skipSpace s2")
      case Nil
      with Cons Some a show ?thesis by (subst jsonMembers.simps) simp
    next
      case colon: (Cons col s3)
      from skipSpace_Cons_length [OF colon] s2 s1 have s3: "length s3 < length s" by simp
      show ?thesis
      proof (cases "jsonValue s3")
        case None
        with Cons Some a colon show ?thesis by (subst jsonMembers.simps) simp
      next
        case valued: (Some b)
        obtain v r where b: "b = (v, r)" by (cases b)
        from valued b have r: "length r < length s3" by (simp add: jsonValue_shorter)
        show ?thesis
        proof (cases "skipSpace r")
          case Nil
          with Cons Some a colon valued b show ?thesis by (subst jsonMembers.simps) simp
        next
          case after: (Cons d r')
          from skipSpace_Cons_length [OF after] r s3 have "length r' < length s" by simp
          with Cons Some a colon valued b after s3 show ?thesis
            by (subst jsonMembers.simps) simp
        qed
      qed
    qed
  qed
qed

subsection \<open>verifyWebhook on the digest of the body\<close>

text \<open>
  C1, as the code has it. For every body and every non-empty secret, the call
  \<open>verifyWebhook(body, hex(hmac(secret, body)), secret)\<close> gets past the comparison of
  the signatures and returns what \<open>JSON.parse\<close> makes of the body: \<open>isValid\<close> is true,
  with the parsed payload, when the body parses as JSON, and false, with the message of
  the parse error, when it does not.
\<close>

theorem verifyWebhook_own_digest:
  assumes "key \<noteq> []"
  shows "verifyWebhook hmacSha256 config body (hexEncode (hmacSha256 key body)) (Some key) =
         (case JSON_parse body of
            Inl e \<Rightarrow> \<lparr>isValid = False, payload = None, error = Some (messageOf e)\<rparr>
          | Inr p \<Rightarrow> \<lparr>isValid = True, payload = Some p, error = None\<rparr>)"
  using assms
  by (simp add: verifyWebhook_def verifyWebhookTry_def truthy_def cleanSignature_hexEncode
      hexDecode_hexEncode timingSafeEqual_def Let_def split: sum.splits)

theorem verifyWebhook_own_digest_witness:
  "js ''test-secret'' \<noteq> [] \<and>
   verifyWebhook exampleDigest exampleConfig (js ''{}'')
     (hexEncode (exampleDigest (js ''test-secret'') (js ''{}''))) (Some (js ''test-secret'')) =
   \<lparr>isValid = True, payload = Some (JObject []), error = None\<rparr>"
  using verifyWebhook_own_digest [of "js ''test-secret''" exampleDigest exampleConfig "js ''{}''"]
  by (simp add: JSON_parse_braces)

text \<open>
  C1 as it is stated fails: the body \<open>oops\<close> is not JSON, and the call with its own
  digest and the secret \<open>test-secret\<close> returns \<open>isValid == false\<close>.
\<close>

theorem verifyWebhook_own_digest_not_json:
  "\<not> isValid (verifyWebhook exampleDigest exampleConfig (js ''oops'')
     (hexEncode (exampleDigest (js ''test-secret'') (js ''oops''))) (Some (js ''test-secret'')))"
  by (simp add: verifyWebhook_def verifyWebhookTry_def truthy_def cleanSignature_hexEncode
      hexDecode_hexEncode timingSafeEqual_def JSON_parse_oops Let_def)

subsection \<open>verifyWebhook by the bytes of the signature\<close>

text \<open>
  C2, as the code has it. Let the digest have 32 bytes, and let the decoded bytes of a
  signature be what \<open>Buffer.from(..., 'hex')\<close> reads from it after the first
  \<open>sha256=\<close> is taken out. For every body, secret and signature, valid hexadecimal
  text or not: if the decoded bytes differ from the digest, \<open>verifyWebhook\<close> returns
  \<open>isValid == false\<close> with an error, which is the message of the length error that
  the comparison throws when the decoded bytes are not 32, and \<open>Invalid signature\<close>
  when they are 32; without a secret it returns the missing secret's message; so a
  signature whose decoded length is not 32 is rejected with an error in every case. If
  the decoded bytes are the digest, the call returns what \<open>JSON.parse\<close> makes of the
  body. Nothing is thrown past the call in any case.
\<close>

theorem verifyWebhook_by_decoded_bytes:
  assumes "\<And>k b. length (hmacSha256 k b) = 32"
  shows "(\<forall>key. (if truthy secretArg then secretArg else secret config) = Some key \<longrightarrow> key \<noteq> [] \<longrightarrow>
            hexDecode (replaceFirst (js ''sha256='') [] signature) \<noteq> hmacSha256 key body \<longrightarrow>
            verifyWebhook hmacSha256 config body signature secretArg =
              \<lparr>isValid = False, payload = None,
               error = Some (if length (hexDecode (replaceFirst (js ''sha256='') [] signature)) \<noteq> 32
                             then Msg (js ''Input buffers must have the same byte length'')
                             else Msg (js ''Invalid signature''))\<rparr>)
       \<and> (\<not> truthy (if truthy secretArg then secretArg else secret config) \<longrightarrow>
            verifyWebhook hmacSha256 config body signature secretArg =
              \<lparr>isValid = False, payload = None, error = Some (Msg (js ''No webhook secret provided''))\<rparr>)
       \<and> (length (hexDecode (replaceFirst (js ''sha256='') [] signature)) \<noteq> 32 \<longrightarrow>
            \<not> isValid (verifyWebhook hmacSha256 config body signature secretArg) \<and>
            payload (verifyWebhook hmacSha256 config body signature secretArg) = None \<and>
            WebhookVerificationResult.error (verifyWebhook hmacSha256 config body signature secretArg) \<noteq> None)
       \<and> (\<forall>key. (if truthy secretArg then secretArg else secret config) = Some key \<longrightarrow> key \<noteq> [] \<longrightarrow>
            hexDecode (replaceFirst (js ''sha256='') [] signature) = hmacSha256 key body \<longrightarrow>
            verifyWebhook hmacSha256 config body signature secretArg =
              (case JSON_parse body of
                 Inl e \<Rightarrow> \<lparr>isValid = False, payload = None, error = Some (messageOf e)\<rparr>
               | Inr p \<Rightarrow> \<lparr>isValid = True, payload = Some p, error = None\<rparr>))"
proof -
  let ?ws = "if truthy secretArg then secretArg else secret config"
  let ?decoded = "hexDecode (replaceFirst (js ''sha256='') [] signature)"
  let ?result = "verifyWebhook hmacSha256 config body signature secretArg"
  have none: "?result = \<lparr>isValid = False, payload = None, error = Some (Msg (js ''No webhook secret provided''))\<rparr>"
    if "\<not> truthy ?ws"
  proof (cases ?ws)
    case None
    then show ?thesis by (simp add: verifyWebhook_def verifyWebhookTry_def)
  next
    case (Some key)
    with that have "key = []" by (simp add: truthy_def)
    with Some show ?thesis by (simp add: verifyWebhook_def verifyWebhookTry_def)
  qed
  have keyed: "?result =
      (if length ?decoded \<noteq> 32
       then \<lparr>isValid = False, payload = None,
             error = Some (Msg (js ''Input buffers must have the same byte length''))\<rparr>
       else if ?decoded \<noteq> hmacSha256 key body
       then \<lparr>isValid = False, payload = None, error = Some (Msg (js ''Invalid signature''))\<rparr>
       else (case JSON_parse body of
               Inl e \<Rightarrow> \<lparr>isValid = False, payload = None, error = Some (messageOf e)\<rparr>
             | Inr p \<Rightarrow> \<lparr>isValid = True, payload = Some p, error = None\<rparr>))"
    if "?ws = Some key" and "key \<noteq> []" for key
    using that assms [of key body]
    by (simp add: verifyWebhook_def verifyWebhookTry_def hexDecode_hexEncode timingSafeEqual_def
        Let_def split: sum.splits)
  have differ: "?result = \<lparr>isValid = False, payload = None,
        error = Some (if length ?decoded \<noteq> 32
                      then Msg (js ''Input buffers must have the same byte length'')
                      else Msg (js ''Invalid signature''))\<rparr>"
    if "?ws = Some key" and "key \<noteq> []" and "?decoded \<noteq> hmacSha256 key body" for key
    using keyed [OF that(1,2)] that(3) by simp
  have same: "?result =
      (case JSON_parse body of
         Inl e \<Rightarrow> \<lparr>isValid = False, payload = None, error = Some (messageOf e)\<rparr>
       | Inr p \<Rightarrow> \<lparr>isValid = True, payload = Some p, error = None\<rparr>)"
    if "?ws = Some key" and "key \<noteq> []" and "?decoded = hmacSha256 key body" for key
    using keyed [OF that(1,2)] that(3) assms [of key body] by simp
  have wrong: "\<not> isValid ?result \<and> payload ?result = None \<and> WebhookVerificationResult.error ?result \<noteq> None"
    if len: "length ?decoded \<noteq> 32"
  proof (cases "truthy ?ws")
    case False
    from none [OF this] show ?thesis by simp
  next
    case True
    then obtain key where key: "?ws = Some key" "key \<noteq> []"
      by (auto simp: truthy_def split: option.splits)
    from keyed [OF key] len show ?thesis by simp
  qed
  from none differ same wrong show ?thesis
    by blast
qed

text \<open>
  The four cases at the body \<open>{}\<close>: a signature of two bytes, 32 bytes that are not
  the digest, no secret, and the digits of the digest raised by 0x100, which are no
  valid hexadecimal text and are accepted.
\<close>

lemma exampleDigest_length: "length (exampleDigest k b) = 32"
  by (simp add: exampleDigest_def)

lemma example_secret:
  "(if truthy None then None else secret exampleConfig) = Some (js ''test-secret'')"
  "\<not> truthy (if truthy None then None else secret noSecretConfig)"
  by (simp_all add: truthy_def exampleConfig_def noSecretConfig_def)

theorem verifyWebhook_by_decoded_bytes_witness:
  "(\<forall>k b. length (exampleDigest k b) = 32) \<and>
   hexDecode (replaceFirst (js ''sha256='') [] (js ''sha256=abcd'')) \<noteq> exampleDigest (js ''test-secret'') (js ''{}'') \<and>
   verifyWebhook exampleDigest exampleConfig (js ''{}'') (js ''sha256=abcd'') None =
     \<lparr>isValid = False, payload = None,
      error = Some (Msg (js ''Input buffers must have the same byte length''))\<rparr> \<and>
   hexDecode (replaceFirst (js ''sha256='') [] (hexEncode (replicate 32 0))) \<noteq> exampleDigest (js ''test-secret'') (js ''{}'') \<and>
   verifyWebhook exampleDigest exampleConfig (js ''{}'') (hexEncode (replicate 32 0)) None =
     \<lparr>isValid = False, payload = None, error = Some (Msg (js ''Invalid signature''))\<rparr> \<and>
   \<not> truthy (if truthy None then None else secret noSecretConfig) \<and>
   verifyWebhook exampleDigest noSecretConfig (js ''{}'') (js ''sha256=abcd'') None =
     \<lparr>isValid = False, payload = None, error = Some (Msg (js ''No webhook secret provided''))\<rparr> \<and>
   \<not> isHexText (raisedDigits (hexEncode (exampleDigest (js ''test-secret'') (js ''{}'')))) \<and>
   hexDecode (replaceFirst (js ''sha256='') [] (raisedDigits (hexEncode (exampleDigest (js ''test-secret'') (js ''{}'')))))
     = exampleDigest (js ''test-secret'') (js ''{}'') \<and>
   verifyWebhook exampleDigest exampleConfig (js ''{}'')
       (raisedDigits (hexEncode (exampleDigest (js ''test-secret'') (js ''{}'')))) None =
     \<lparr>isValid = True, payload = Some (JObject []), error = None\<rparr>"
proof -
  let ?d = "exampleDigest (js ''test-secret'') (js ''{}'')"
  note all = verifyWebhook_by_decoded_bytes [of exampleDigest, OF exampleDigest_length]
  have key: "js ''test-secret'' \<noteq> []" by simp
  have short: "hexDecode (replaceFirst (js ''sha256='') [] (js ''sha256=abcd'')) \<noteq> ?d"
    by code_simp
  have shortLength: "length (hexDecode (replaceFirst (js ''sha256='') [] (js ''sha256=abcd''))) \<noteq> 32"
    by code_simp
  have zeros: "hexDecode (replaceFirst (js ''sha256='') [] (hexEncode (replicate 32 0))) \<noteq> ?d"
    by code_simp
  have zerosLength: "length (hexDecode (replaceFirst (js ''sha256='') [] (hexEncode (replicate 32 0)))) = 32"
    by code_simp
  have raised: "hexDecode (replaceFirst (js ''sha256='') [] (raisedDigits (hexEncode ?d))) = ?d"
    by code_simp
  have notHex: "\<not> isHexText (raisedDigits (hexEncode ?d))"
    by code_simp
  from all [of None exampleConfig "js ''sha256=abcd''" "js ''{}''", THEN conjunct1, rule_format,
      OF example_secret(1) key short] shortLength
  have r1: "verifyWebhook exampleDigest exampleConfig (js ''{}'') (js ''sha256=abcd'') None =
     \<lparr>isValid = False, payload = None,
      error = Some (Msg (js ''Input buffers must have the same byte length''))\<rparr>"
    by simp
  from all [of None exampleConfig "hexEncode (replicate 32 0)" "js ''{}''", THEN conjunct1, rule_format,
      OF example_secret(1) key zeros] zerosLength
  have r2: "verifyWebhook exampleDigest exampleConfig (js ''{}'') (hexEncode (replicate 32 0)) None =
     \<lparr>isValid = False, payload = None, error = Some (Msg (js ''Invalid signature''))\<rparr>"
    by simp
  from all [of None noSecretConfig "js ''sha256=abcd''" "js ''{}''", THEN conjunct2, THEN conjunct1,
      rule_format, OF example_secret(2)]
  have r3: "verifyWebhook exampleDigest noSecretConfig (js ''{}'') (js ''sha256=abcd'') None =
     \<lparr>isValid = False, payload = None, error = Some (Msg (js ''No webhook secret provided''))\<rparr>" .
  from all [of None exampleConfig "raisedDigits (hexEncode ?d)" "js ''{}''", THEN conjunct2, THEN conjunct2,
      THEN conjunct2, rule_format, OF example_secret(1) key raised]
  have r4: "verifyWebhook exampleDigest exampleConfig (js ''{}'') (raisedDigits (hexEncode ?d)) None =
     \<lparr>isValid = True, payload = Some (JObject []), error = None\<rparr>"
    by (simp add: JSON_parse_braces)
  from r1 r2 r3 r4 short zeros raised notHex example_secret(2) show ?thesis
    by (simp add: exampleDigest_length)
qed

text \<open>
  C2 as it is stated fails: a signature that is not valid hexadecimal text is accepted
  when the digits before its first bad pair are the digest. Here the signature is the
  digest of the body \<open>{}\<close> in hexadecimal followed by \<open>zz\<close>.
\<close>

theorem verifyWebhook_accepts_trailing_text:
  "\<not> isHexText (hexEncode (exampleDigest (js ''test-secret'') (js ''{}'')) @ js ''zz'') \<and>
   isValid (verifyWebhook exampleDigest exampleConfig (js ''{}'')
     (hexEncode (exampleDigest (js ''test-secret'') (js ''{}'')) @ js ''zz'')
     (Some (js ''test-secret'')))"
proof -
  let ?d = "exampleDigest (js ''test-secret'') (js ''{}'')"
  have zz: "js ''zz'' = [0x7A, 0x7A]"
    by (simp add: js_def)
  have "0x73 \<notin> set (hexEncode ?d @ js ''zz'')"
    by (simp add: s_notin_hexEncode zz)
  then have clean: "replaceFirst (js ''sha256='') [] (hexEncode ?d @ js ''zz'') = hexEncode ?d @ js ''zz''"
    by (simp add: js_sha256 replaceFirst_absent)
  have decoded: "hexDecode (hexEncode ?d @ js ''zz'') = ?d"
    by (simp add: hexDecode_hexEncode_append zz unhexUnit_def unhex_def)
  have "\<not> isHexText (hexEncode ?d @ js ''zz'')"
    by (simp add: isHexText_def isHexDigits_def zz unhex_def)
  moreover have "isValid (verifyWebhook exampleDigest exampleConfig (js ''{}'')
     (hexEncode ?d @ js ''zz'') (Some (js ''test-secret'')))"
    by (simp add: verifyWebhook_def verifyWebhookTry_def truthy_def clean decoded
        hexDecode_hexEncode timingSafeEqual_def JSON_parse_braces Let_def)
  ultimately show ?thesis by simp
qed

subsection \<open>The prefix of the signature\<close>

text \<open>
  C6. For every body, secret and hexadecimal text \<open>h\<close>, \<open>verifyWebhook\<close> returns the same
  result for the signature \<open>sha256=h\<close> as for \<open>h\<close>; so a signature that is accepted in one
  form is accepted in the other.
\<close>

theorem verifyWebhook_prefix_optional:
  assumes "isHexDigits h"
  shows "verifyWebhook hmacSha256 config body (js ''sha256='' @ h) secretArg =
         verifyWebhook hmacSha256 config body h secretArg"
proof -
  from assms have "replaceFirst (js ''sha256='') [] h = h"
    by (rule cleanSignature_hex)
  then have same: "replaceFirst (js ''sha256='') [] (js ''sha256='' @ h) =
                   replaceFirst (js ''sha256='') [] h"
    by (simp add: cleanSignature_prefixed)
  show ?thesis
    unfolding verifyWebhook_def verifyWebhookTry_def same by (rule refl)
qed

text \<open>The digest of the body \<open>{}\<close> is accepted with the prefix and without it.\<close>

theorem verifyWebhook_prefix_optional_witness:
  "isHexDigits (hexEncode (exampleDigest (js ''test-secret'') (js ''{}''))) \<and>
   verifyWebhook exampleDigest exampleConfig (js ''{}'')
     (js ''sha256='' @ hexEncode (exampleDigest (js ''test-secret'') (js ''{}'')))
     (Some (js ''test-secret'')) =
   verifyWebhook exampleDigest exampleConfig (js ''{}'')
     (hexEncode (exampleDigest (js ''test-secret'') (js ''{}''))) (Some (js ''test-secret'')) \<and>
   isValid (verifyWebhook exampleDigest exampleConfig (js ''{}'')
     (js ''sha256='' @ hexEncode (exampleDigest (js ''test-secret'') (js ''{}'')))
     (Some (js ''test-secret'')))"
proof -
  let ?h = "hexEncode (exampleDigest (js ''test-secret'') (js ''{}''))"
  have hex: "isHexDigits ?h"
    by (rule isHexDigits_hexEncode)
  have bare: "isValid (verifyWebhook exampleDigest exampleConfig (js ''{}'') ?h (Some (js ''test-secret'')))"
    by (simp add: verifyWebhook_def verifyWebhookTry_def truthy_def cleanSignature_hexEncode
        hexDecode_hexEncode timingSafeEqual_def JSON_parse_braces Let_def)
  show ?thesis
    using hex bare
      verifyWebhook_prefix_optional [OF hex, of exampleDigest exampleConfig "js ''{}''"
        "Some (js ''test-secret'')"]
    by simp
qed

subsection \<open>The catalog\<close>

lemma findIndexFrom_none: "(findIndexFrom p xs i = - 1) = (\<forall>x \<in> set xs. \<not> p x)" if "0 \<le> i"
  using that
proof (induction xs arbitrary: i)
  case Nil
  then show ?case by simp
next
  case (Cons x xs)
  from Cons.prems have "0 \<le> i + 1" by simp
  from Cons.IH [OF this] Cons.prems show ?case by auto
qed

lemma findIndexFrom_range: "0 \<le> i \<Longrightarrow> findIndexFrom p xs i = - 1 \<or> (i \<le> findIndexFrom p xs i \<and> findIndexFrom p xs i < i + int (length xs))"
proof (induction xs arbitrary: i)
  case Nil
  then show ?case by simp
next
  case (Cons x xs)
  from Cons.prems have "0 \<le> i + 1" by simp
  from Cons.IH [OF this] show ?case by auto
qed

lemma findIndexFrom_found:
  "0 \<le> i \<Longrightarrow> findIndexFrom p xs i \<noteq> - 1 \<Longrightarrow> p (xs ! nat (findIndexFrom p xs i - i))"
proof (induction xs arbitrary: i)
  case Nil
  then show ?case by simp
next
  case (Cons x xs)
  show ?case
  proof (cases "p x")
    case True
    then show ?thesis by simp
  next
    case False
    from Cons.prems have i1: "0 \<le> i + 1" by simp
    from False Cons.prems have ne: "findIndexFrom p xs (i + 1) \<noteq> - 1" by simp
    from findIndexFrom_range [OF i1, of p xs] ne have "i + 1 \<le> findIndexFrom p xs (i + 1)" by auto
    then have "nat (findIndexFrom p xs (i + 1) - i) = Suc (nat (findIndexFrom p xs (i + 1) - (i + 1)))"
      by simp
    with Cons.IH [OF i1 ne] False show ?thesis by simp
  qed
qed

lemma findIndex_absent: "(findIndex p xs = - 1) = (\<forall>x \<in> set xs. \<not> p x)"
  unfolding findIndex_def by (rule findIndexFrom_none) simp

lemma findIndex_present:
  assumes "\<exists>x \<in> set xs. p x"
  shows "0 \<le> findIndex p xs" "nat (findIndex p xs) < length xs" "p (xs ! nat (findIndex p xs))"
proof -
  from assms have ne: "findIndex p xs \<noteq> - 1"
    by (simp add: findIndex_absent)
  with findIndexFrom_range [of 0 p xs] show "0 \<le> findIndex p xs" "nat (findIndex p xs) < length xs"
    by (auto simp: findIndex_def)
  from findIndexFrom_found [of 0 p xs] ne show "p (xs ! nat (findIndex p xs))"
    by (simp add: findIndex_def)
qed

lemma distinct_map_update:
  "distinct (map f xs) \<Longrightarrow> i < length xs \<Longrightarrow> f (xs ! i) = f y \<Longrightarrow> map f (xs[i := y]) = map f xs"
  by (simp add: map_update list_update_same_conv)

lemma distinct_index_unique:
  "distinct (map f xs) \<Longrightarrow> i < length xs \<Longrightarrow> j < length xs \<Longrightarrow> f (xs ! i) = f (xs ! j) \<Longrightarrow> i = j"
  by (metis distinct_conv_nth length_map nth_map)

lemma storedJob_fields [simp]:
  "job_id (storedJob d) = job_id d"
  "job_title (storedJob d) = job_title d"
  "slug (storedJob d) = createSlug (job_title d)"
  "JobData.truncate (storedJob d) = d"
  by (simp_all add: storedJob_def JobData.defs Job.defs)

lemma key_not_in_image: "k \<notin> f ` S \<Longrightarrow> z \<in> S \<Longrightarrow> f z \<noteq> k"
  by (metis imageI)

lemma filter_key_absent: "k \<notin> f ` set ys \<Longrightarrow> filter (\<lambda>z. f z = k) ys = []"
  by (simp add: filter_empty_conv key_not_in_image)

lemma filter_key_distinct:
  "distinct (map f ys) \<Longrightarrow> y \<in> set ys \<Longrightarrow> filter (\<lambda>z. f z = f y) ys = [y]"
proof (induction ys)
  case Nil
  then show ?case by simp
next
  case (Cons a ys)
  show ?case
  proof (cases "a = y")
    case True
    from Cons.prems have "f a \<notin> f ` set ys" by simp
    then have "filter (\<lambda>z. f z = f a) ys = []" by (rule filter_key_absent)
    with True show ?thesis by simp
  next
    case False
    with Cons.prems have "y \<in> set ys" by simp
    with Cons.prems have "f a \<noteq> f y" by (auto simp: image_iff)
    with Cons \<open>y \<in> set ys\<close> show ?thesis by simp
  qed
qed

lemma upsert_absent:
  assumes "job_id d \<notin> job_id ` set (catalog file)"
  shows "handleJobCreatedOrUpdated file d =
         (Some (catalog file @ [storedJob d]), [js ''/jobs/'' @ createSlug (job_title d), js ''/jobs''])"
proof -
  from assms have "findIndex (\<lambda>j. job_id j = job_id d) (catalog file) = - 1"
    by (simp add: findIndex_absent key_not_in_image)
  then show ?thesis
    by (simp add: handleJobCreatedOrUpdated_def readJobs_def catalog_def storedJob_def Let_def
        split: option.splits)
qed

lemma upsert_present:
  assumes "distinct (map job_id (catalog file))" and "i < length (catalog file)"
    and "job_id (catalog file ! i) = job_id d"
  shows "handleJobCreatedOrUpdated file d =
         (Some ((catalog file)[i := storedJob d]), [js ''/jobs/'' @ createSlug (job_title d), js ''/jobs''])"
proof -
  let ?p = "\<lambda>j. job_id j = job_id d"
  from assms have ex: "\<exists>x \<in> set (catalog file). ?p x"
    using nth_mem by blast
  note found = findIndex_present [OF ex]
  from found(3) assms(3) have "job_id (catalog file ! nat (findIndex ?p (catalog file))) = job_id (catalog file ! i)"
    by simp
  from distinct_index_unique [OF assms(1) found(2) assms(2) this]
  have "nat (findIndex ?p (catalog file)) = i" .
  with found(1) show ?thesis
    by (auto simp add: handleJobCreatedOrUpdated_def readJobs_def catalog_def storedJob_def Let_def
        split: option.splits)
qed

lemma upsert_cases:
  assumes "distinct (map job_id (catalog file))"
  shows "distinct (map job_id (catalog (fst (handleJobCreatedOrUpdated file d))))
       \<and> filter (\<lambda>j. job_id j = job_id d) (catalog (fst (handleJobCreatedOrUpdated file d))) = [storedJob d]"
proof (cases "job_id d \<in> job_id ` set (catalog file)")
  case False
  then have "filter (\<lambda>j. job_id j = job_id d) (catalog file) = []"
    by (rule filter_key_absent)
  with False assms show ?thesis
    by (auto simp add: upsert_absent catalog_def)
next
  case True
  then obtain i where i: "i < length (catalog file)" "job_id (catalog file ! i) = job_id d"
    by (auto simp: in_set_conv_nth)
  let ?new = "(catalog file)[i := storedJob d]"
  have ids: "map job_id ?new = map job_id (catalog file)"
    using distinct_map_update [OF assms i(1), of "storedJob d"] i(2) by simp
  have "storedJob d \<in> set ?new"
    using i by (simp add: set_update_memI)
  moreover from ids assms have "distinct (map job_id ?new)" by simp
  ultimately have "filter (\<lambda>z. job_id z = job_id (storedJob d)) ?new = [storedJob d]"
    by (intro filter_key_distinct)
  with ids assms i show ?thesis
    by (simp add: upsert_present [OF assms i] catalog_def)
qed

text \<open>
  C3. Let the jobs of the catalog have distinct \<open>job_id\<close>s. After
  \<open>handleJobCreatedOrUpdated\<close> the file is written and its jobs still have distinct
  \<open>job_id\<close>s; a job whose id is new is appended at the end; a job whose id is there
  replaces the record at its index; and after a second job with the same id the catalog
  has exactly one record with that id, the second job with the slug of its title, and
  is no longer than before.
\<close>

theorem upsert_keeps_job_id_unique:
  assumes "distinct (map job_id (catalog file))"
  shows "fst (handleJobCreatedOrUpdated file d) \<noteq> None
     \<and> distinct (map job_id (catalog (fst (handleJobCreatedOrUpdated file d))))
     \<and> (job_id d \<notin> job_id ` set (catalog file) \<longrightarrow>
          catalog (fst (handleJobCreatedOrUpdated file d)) = catalog file @ [storedJob d])
     \<and> (\<forall>i < length (catalog file). job_id (catalog file ! i) = job_id d \<longrightarrow>
          catalog (fst (handleJobCreatedOrUpdated file d)) = (catalog file)[i := storedJob d])
     \<and> (job_id d' = job_id d \<longrightarrow>
          filter (\<lambda>j. job_id j = job_id d)
            (catalog (fst (handleJobCreatedOrUpdated (fst (handleJobCreatedOrUpdated file d)) d')))
            = [storedJob d']
          \<and> length (catalog (fst (handleJobCreatedOrUpdated (fst (handleJobCreatedOrUpdated file d)) d')))
            = length (catalog (fst (handleJobCreatedOrUpdated file d))))
     \<and> JobData.truncate (storedJob d') = d' \<and> slug (storedJob d') = createSlug (job_title d')"
proof -
  let ?file1 = "fst (handleJobCreatedOrUpdated file d)"
  have written: "?file1 \<noteq> None"
    by (simp add: handleJobCreatedOrUpdated_def Let_def)
  note first = upsert_cases [OF assms, of d]
  have absent: "job_id d \<notin> job_id ` set (catalog file) \<longrightarrow>
      catalog ?file1 = catalog file @ [storedJob d]"
    by (simp add: upsert_absent catalog_def)
  have present: "\<forall>i < length (catalog file). job_id (catalog file ! i) = job_id d \<longrightarrow>
      catalog ?file1 = (catalog file)[i := storedJob d]"
    by (simp add: upsert_present [OF assms] catalog_def)
  have twice: "filter (\<lambda>j. job_id j = job_id d) (catalog (fst (handleJobCreatedOrUpdated ?file1 d'))) = [storedJob d']
      \<and> length (catalog (fst (handleJobCreatedOrUpdated ?file1 d'))) = length (catalog ?file1)"
    if same: "job_id d' = job_id d"
  proof -
    from first have d1: "distinct (map job_id (catalog ?file1))" and
      one: "filter (\<lambda>j. job_id j = job_id d) (catalog ?file1) = [storedJob d]"
      by simp_all
    from one have "storedJob d \<in> set (filter (\<lambda>j. job_id j = job_id d) (catalog ?file1))"
      by simp
    then have "storedJob d \<in> set (catalog ?file1)"
      by simp
    then obtain i where i: "i < length (catalog ?file1)" "catalog ?file1 ! i = storedJob d"
      by (auto simp: in_set_conv_nth)
    with same have "job_id (catalog ?file1 ! i) = job_id d'" by simp
    from upsert_present [OF d1 i(1) this] upsert_cases [OF d1, of d'] same
    show ?thesis by (simp add: catalog_def)
  qed
  from written first absent present twice show ?thesis
    by simp
qed

lemma exampleJob_fields [simp]:
  "job_id (exampleJob ident title) = ident"
  "job_title (exampleJob ident title) = title"
  by (simp_all add: exampleJob_def)

lemma slug_new_roof: "createSlug (js ''New Roof!'') = js ''new-roof''"
  by code_simp

theorem upsert_keeps_job_id_unique_witness:
  "distinct (map job_id (catalog None)) \<and>
   job_id (exampleJob (js ''42'') (js ''Roof Repair'')) \<notin> job_id ` set (catalog None) \<and>
   catalog (fst (handleJobCreatedOrUpdated None (exampleJob (js ''42'') (js ''Roof Repair''))))
     = [storedJob (exampleJob (js ''42'') (js ''Roof Repair''))] \<and>
   job_id (exampleJob (js ''42'') (js ''New Roof!'')) = job_id (exampleJob (js ''42'') (js ''Roof Repair'')) \<and>
   catalog (fst (handleJobCreatedOrUpdated
       (fst (handleJobCreatedOrUpdated None (exampleJob (js ''42'') (js ''Roof Repair''))))
       (exampleJob (js ''42'') (js ''New Roof!''))))
     = [storedJob (exampleJob (js ''42'') (js ''New Roof!''))] \<and>
   slug (storedJob (exampleJob (js ''42'') (js ''New Roof!''))) = js ''new-roof'' \<and>
   distinct (map job_id (catalog (Some [storedJob (exampleJob (js ''42'') (js ''Roof Repair''))]))) \<and>
   0 < length (catalog (Some [storedJob (exampleJob (js ''42'') (js ''Roof Repair''))])) \<and>
   job_id (catalog (Some [storedJob (exampleJob (js ''42'') (js ''Roof Repair''))]) ! 0)
     = job_id (exampleJob (js ''42'') (js ''New Roof!'')) \<and>
   catalog (fst (handleJobCreatedOrUpdated (Some [storedJob (exampleJob (js ''42'') (js ''Roof Repair''))])
       (exampleJob (js ''42'') (js ''New Roof!''))))
     = [storedJob (exampleJob (js ''42'') (js ''New Roof!''))]"
proof -
  let ?a = "exampleJob (js ''42'') (js ''Roof Repair'')"
  let ?b = "exampleJob (js ''42'') (js ''New Roof!'')"
  have d0: "distinct (map job_id (catalog None))"
    by (simp add: catalog_def)
  have d1: "distinct (map job_id (catalog (Some [storedJob ?a])))"
    by (simp add: catalog_def)
  note fresh = upsert_keeps_job_id_unique [OF d0, of ?a ?b]
  note again = upsert_keeps_job_id_unique [OF d1, of ?b ?b]
  from fresh have one: "catalog (fst (handleJobCreatedOrUpdated None ?a)) = [storedJob ?a]"
    by (simp add: catalog_def)
  from fresh have "filter (\<lambda>j. job_id j = js ''42'')
      (catalog (fst (handleJobCreatedOrUpdated (fst (handleJobCreatedOrUpdated None ?a)) ?b))) = [storedJob ?b]"
    and "length (catalog (fst (handleJobCreatedOrUpdated (fst (handleJobCreatedOrUpdated None ?a)) ?b))) = 1"
    by (simp_all add: one)
  then have two: "catalog (fst (handleJobCreatedOrUpdated (fst (handleJobCreatedOrUpdated None ?a)) ?b)) = [storedJob ?b]"
    by (cases "catalog (fst (handleJobCreatedOrUpdated (fst (handleJobCreatedOrUpdated None ?a)) ?b))")
      (auto split: if_splits)
  from again have three: "catalog (fst (handleJobCreatedOrUpdated (Some [storedJob ?a]) ?b)) = [storedJob ?b]"
    by (simp add: catalog_def)
  from one two three show ?thesis
    by (simp add: catalog_def slug_new_roof)
qed

text \<open>
  C7. For every catalog file and every job whose \<open>job_id\<close> is not in the catalog,
  \<open>handleJobDeleted\<close> leaves the file as it was: the same records in the same order,
  or still no readable file. Nothing is thrown: what the \<open>try\<close> block throws is
  caught.
\<close>

theorem delete_absent_is_noop:
  assumes "job_id d \<notin> job_id ` set (catalog file)"
  shows "fst (handleJobDeleted file d) = file"
proof (cases "file")
  case None
  then show ?thesis by (simp add: handleJobDeleted_def readJobs_def)
next
  case (Some jobs)
  with assms have "\<forall>j \<in> set jobs. job_id j \<noteq> job_id d"
    by (simp add: catalog_def key_not_in_image)
  then have "filter (\<lambda>j. job_id j \<noteq> job_id d) jobs = jobs"
    by (simp add: filter_id_conv)
  with Some show ?thesis by (simp add: handleJobDeleted_def readJobs_def)
qed

theorem delete_absent_is_noop_witness:
  "job_id (exampleJob (js ''7'') []) \<notin>
     job_id ` set (catalog (Some [storedJob (exampleJob (js ''42'') (js ''Roof Repair''))])) \<and>
   fst (handleJobDeleted (Some [storedJob (exampleJob (js ''42'') (js ''Roof Repair''))])
     (exampleJob (js ''7'') [])) = Some [storedJob (exampleJob (js ''42'') (js ''Roof Repair''))]"
proof -
  have absent: "job_id (exampleJob (js ''7'') []) \<notin>
     job_id ` set (catalog (Some [storedJob (exampleJob (js ''42'') (js ''Roof Repair''))]))"
    by (simp add: catalog_def js_def)
  from absent delete_absent_is_noop [OF absent] show ?thesis
    by simp
qed

subsection \<open>createSlug\<close>

lemma collapseFrom_run: "collapseFrom True s = collapseFrom False (dropWhile isSeparator s)"
  by (induction s) simp_all

lemma replaceRuns_collapse:
  "replaceRuns isSeparator (js ''-'') s = collapseFrom False s"
proof (induction "length s" arbitrary: s rule: less_induct)
  case less
  show ?case
  proof (cases s)
    case Nil
    then show ?thesis by simp
  next
    case (Cons c cs)
    have hyphen: "js ''-'' = [0x2D]" by (simp add: js_def)
    show ?thesis
    proof (cases "isSeparator c")
      case True
      have "length (dropWhile isSeparator cs) < length s"
        using Cons by (simp add: le_imp_less_Suc length_dropWhile_le)
      from less [OF this] True Cons show ?thesis
        by (simp add: hyphen collapseFrom_run)
    next
      case False
      have "length cs < length s" using Cons by simp
      from less [OF this] False Cons show ?thesis by simp
    qed
  qed
qed

lemma isWordUnit_alphanumeric: "isWordUnit c = (isAlphanumeric c \<or> c = 0x5F)"
  by (auto simp: isWordUnit_def isAlphanumeric_def)

text \<open>
  C5, as the code has it. \<open>createSlug\<close> is the four-step function in which step 2
  keeps underscores too (it removes every character that is not alphanumeric, an
  underscore, white space or a hyphen), and the slug of
  \<open>Plumbing Repair - 4th St!\<close>, whose dash is the en dash U+2013, is
  \<open>plumbing-repair-4th-st\<close>.
\<close>

theorem createSlug_four_steps:
  "createSlug title = slugifyKeepingUnderscore title \<and>
   createSlug (js ''Plumbing Repair '' @ [0x2013] @ js '' 4th St!'') = js ''plumbing-repair-4th-st''"
proof -
  have sep: "(\<lambda>c. isSpaceUnit c \<or> c = 0x5F \<or> c = 0x2D) = isSeparator"
    by (simp add: isSeparator_def fun_eq_iff)
  have kept: "(\<lambda>c. isWordUnit c \<or> isSpaceUnit c \<or> c = 0x2D) =
              (\<lambda>c. isAlphanumeric c \<or> c = 0x5F \<or> isSpaceUnit c \<or> c = 0x2D)"
    by (auto simp: isWordUnit_alphanumeric fun_eq_iff)
  have "createSlug title = slugifyKeepingUnderscore title"
    by (simp add: createSlug_def slugifyKeepingUnderscore_def slugifySteps_def trimHyphens_def
        keepOnly_def sep kept replaceRuns_collapse Let_def)
  moreover have "createSlug (js ''Plumbing Repair '' @ [0x2013] @ js '' 4th St!'') = js ''plumbing-repair-4th-st''"
    by (simp add: createSlug_def js_def toLowerCase_def lowerUnit_def keepOnly_def isWordUnit_def
        isSpaceUnit_def trimHyphens_def)
  ultimately show ?thesis by simp
qed

text \<open>
  C5 as it is stated fails: step 2 of the specification removes the underscore of
  \<open>a_b\<close>, which gives \<open>ab\<close>, and the code keeps it for step 3, which gives \<open>a-b\<close>.
\<close>

theorem createSlug_keeps_underscore_runs:
  "createSlug (js ''a_b'') = js ''a-b'' \<and> slugify (js ''a_b'') = js ''ab'' \<and>
   createSlug (js ''a_b'') \<noteq> slugify (js ''a_b'')"
  by (simp add: createSlug_def slugify_def slugifySteps_def js_def toLowerCase_def lowerUnit_def
      keepOnly_def isWordUnit_def isAlphanumeric_def isSeparator_def isSpaceUnit_def trimHyphens_def)

subsection \<open>Downloading images\<close>

lemma downloadImage_path_any_files:
  "fst (downloadImage join cwd io files imageUrl jobId index publicDirArg) =
   fst (downloadImage join cwd io files' imageUrl jobId index publicDirArg)"
  by (simp add: downloadImage_def Let_def split: sum.splits option.splits)

lemma downloadImage_failure:
  assumes "imageFails io"
  shows "downloadImage join cwd io files imageUrl jobId index publicDirArg = (imageUrl, files)"
proof (cases "fetched io")
  case (Inl t)
  then show ?thesis by (simp add: downloadImage_def)
next
  case (Inr response)
  show ?thesis
  proof (cases "mkdirThrows io")
    case True
    then show ?thesis by (simp add: downloadImage_def Let_def Inr)
  next
    case False
    with assms Inr have "writeFileThrows io"
      by (simp add: imageFails_def)
    then show ?thesis by (simp add: downloadImage_def Let_def Inr)
  qed
qed


lemma downloadLoop_paths:
  "fst (downloadLoop join cwd io jobData publicDir i acc files) =
   acc @ map (\<lambda>k. fst (downloadImage join cwd (io k) Map.empty (job_images jobData ! k)
                         (job_id jobData) k (Some publicDir)))
           [i ..< length (job_images jobData)]"
proof (induction join cwd io jobData publicDir i acc files rule: downloadLoop.induct)
  case (1 join cwd io jobData publicDir i localImagePaths files)
  show ?case
  proof (cases "i < length (job_images jobData)")
    case False
    then show ?thesis
      by (subst downloadLoop.simps) simp
  next
    case True
    obtain localPath files' where step:
      "downloadImage join cwd (io i) files (job_images jobData ! i) (job_id jobData) i (Some publicDir)
         = (localPath, files')"
      by (cases "downloadImage join cwd (io i) files (job_images jobData ! i) (job_id jobData) i (Some publicDir)")
    have "fst (downloadImage join cwd (io i) files (job_images jobData ! i) (job_id jobData) i (Some publicDir))
        = fst (downloadImage join cwd (io i) Map.empty (job_images jobData ! i) (job_id jobData) i (Some publicDir))"
      by (rule downloadImage_path_any_files)
    with step have path: "localPath = fst (downloadImage join cwd (io i) Map.empty (job_images jobData ! i)
        (job_id jobData) i (Some publicDir))"
      by simp
    from "1.IH" [OF True refl step [symmetric] refl]
    have rest: "fst (downloadLoop join cwd io jobData publicDir (i + 1) (localImagePaths @ [localPath]) files') =
          (localImagePaths @ [localPath]) @
          map (\<lambda>k. fst (downloadImage join cwd (io k) Map.empty (job_images jobData ! k)
                         (job_id jobData) k (Some publicDir)))
            [i + 1 ..< length (job_images jobData)]" .
    have "fst (downloadLoop join cwd io jobData publicDir i localImagePaths files) =
          fst (downloadLoop join cwd io jobData publicDir (i + 1) (localImagePaths @ [localPath]) files')"
      using True step by (subst downloadLoop.simps) (simp add: Let_def)
    with rest path True show ?thesis
      by (simp add: upt_conv_Cons)
  qed
qed

lemma downloadJobImages_paths:
  "fst (downloadJobImages join cwd io files jobData publicDirArg) =
   map (\<lambda>k. fst (downloadImage join cwd (io k) Map.empty (job_images jobData ! k) (job_id jobData) k
                    (Some (case publicDirArg of None \<Rightarrow> js ''public/jobs'' | Some d \<Rightarrow> d))))
     [0 ..< length (job_images jobData)]"
  by (simp add: downloadJobImages_def downloadLoop_paths Let_def)

text \<open>
  C4. For every list of image URLs and every job id, \<open>downloadJobImages\<close> returns
  as many paths as there are images; the path at position \<open>i\<close> is what
  \<open>downloadImage\<close> returns for image \<open>i\<close> with index \<open>i\<close> (whatever files
  are there), and it is the image's URL when that download fails, the others being
  unaffected. \<open>downloadImage\<close> throws nothing: when anything fails it returns the URL
  and leaves the files as they were.
\<close>

theorem downloadJobImages_in_order:
  "length (fst (downloadJobImages join cwd io files jobData publicDirArg)) = length (job_images jobData)
   \<and> (\<forall>i < length (job_images jobData).
        fst (downloadJobImages join cwd io files jobData publicDirArg) ! i =
          fst (downloadImage join cwd (io i) files' (job_images jobData ! i) (job_id jobData) i
                 (Some (case publicDirArg of None \<Rightarrow> js ''public/jobs'' | Some d \<Rightarrow> d)))
        \<and> (imageFails (io i) \<longrightarrow>
             fst (downloadJobImages join cwd io files jobData publicDirArg) ! i = job_images jobData ! i))
   \<and> (imageFails io1 \<longrightarrow> downloadImage join cwd io1 files imageUrl jobId index dir = (imageUrl, files))"
proof -
  let ?dir = "Some (case publicDirArg of None \<Rightarrow> js ''public/jobs'' | Some d \<Rightarrow> d)"
  have each: "fst (downloadJobImages join cwd io files jobData publicDirArg) ! i =
      fst (downloadImage join cwd (io i) fs (job_images jobData ! i) (job_id jobData) i ?dir)"
    if "i < length (job_images jobData)" for i fs
  proof -
    have "fst (downloadImage join cwd (io i) Map.empty (job_images jobData ! i) (job_id jobData) i ?dir) =
          fst (downloadImage join cwd (io i) fs (job_images jobData ! i) (job_id jobData) i ?dir)"
      by (rule downloadImage_path_any_files)
    with that show ?thesis
      by (simp add: downloadJobImages_paths)
  qed
  have failed: "fst (downloadJobImages join cwd io files jobData publicDirArg) ! i = job_images jobData ! i"
    if "i < length (job_images jobData)" and "imageFails (io i)" for i
    using each [OF that(1), of Map.empty] downloadImage_failure [OF that(2)] by simp
  have "length (fst (downloadJobImages join cwd io files jobData publicDirArg)) = length (job_images jobData)"
    by (simp add: downloadJobImages_paths)
  with each failed show ?thesis
    by (simp add: downloadImage_failure)
qed

lemma first_image: "fst (downloadImage exampleJoin (js ''/app'') (exampleIO 0) Map.empty
     (js ''https://cdn.example.com/a.PNG?v=2'') (js ''42'') 0 (Some (js ''public/jobs''))) = js ''/jobs/job-42-0.png''"
  by code_simp

lemma third_image: "fst (downloadImage exampleJoin (js ''/app'') (exampleIO 2) Map.empty
     (js ''https://cdn.example.com/c'') (js ''42'') 2 (Some (js ''public/jobs''))) = js ''/jobs/job-42-2.png''"
  by code_simp

lemma exampleIO_fails: "imageFails (exampleIO 1)"
  by (simp add: imageFails_def exampleIO_def)

lemma exampleImages_fields:
  "job_images exampleImages = [js ''https://cdn.example.com/a.PNG?v=2'',
     js ''https://cdn.example.com/b.png'', js ''https://cdn.example.com/c'']"
  "job_id exampleImages = js ''42''"
  by (simp_all add: exampleImages_def exampleJob_def)

theorem downloadJobImages_in_order_witness:
  "length (job_images exampleImages) = 3 \<and> imageFails (exampleIO 1) \<and>
   length (fst (downloadJobImages exampleJoin (js ''/app'') exampleIO Map.empty exampleImages None)) = 3 \<and>
   fst (downloadJobImages exampleJoin (js ''/app'') exampleIO Map.empty exampleImages None) ! 0
     = js ''/jobs/job-42-0.png'' \<and>
   fst (downloadJobImages exampleJoin (js ''/app'') exampleIO Map.empty exampleImages None) ! 1
     = js ''https://cdn.example.com/b.png'' \<and>
   fst (downloadJobImages exampleJoin (js ''/app'') exampleIO Map.empty exampleImages None) ! 2
     = js ''/jobs/job-42-2.png'' \<and>
   downloadImage exampleJoin (js ''/app'') (exampleIO 1) Map.empty (js ''https://cdn.example.com/b.png'')
     (js ''42'') 1 None = (js ''https://cdn.example.com/b.png'', Map.empty)"
proof -
  note all = downloadJobImages_in_order [of exampleJoin "js ''/app''" exampleIO Map.empty exampleImages None
      Map.empty "exampleIO 1" "js ''https://cdn.example.com/b.png''" "js ''42''" 1 None]
  note len = all [THEN conjunct1]
  note nth = all [THEN conjunct2, THEN conjunct1, rule_format]
  note single = all [THEN conjunct2, THEN conjunct2, rule_format, OF exampleIO_fails]
  have three: "length (job_images exampleImages) = 3"
    by (simp add: exampleImages_fields)
  have "fst (downloadJobImages exampleJoin (js ''/app'') exampleIO Map.empty exampleImages None) ! 0
      = js ''/jobs/job-42-0.png''"
    using nth [of 0, THEN conjunct1] by (simp add: exampleImages_fields first_image)
  moreover have "fst (downloadJobImages exampleJoin (js ''/app'') exampleIO Map.empty exampleImages None) ! 1
      = js ''https://cdn.example.com/b.png''"
    using nth [of 1, THEN conjunct2, rule_format, OF _ exampleIO_fails] by (simp add: exampleImages_fields)
  moreover have "fst (downloadJobImages exampleJoin (js ''/app'') exampleIO Map.empty exampleImages None) ! 2
      = js ''/jobs/job-42-2.png''"
    using nth [of 2, THEN conjunct1] by (simp add: exampleImages_fields third_image)
  ultimately show ?thesis
    using len three single exampleIO_fails by simp
qed

text \<open>
  C8 fails on the code at a content type that names a property every object inherits.
  The URL \<open>https://cdn.example.com/photo\<close> has no listed extension and the content
  type \<open>constructor\<close> is not in the table, so the rule of the claim gives \<open>jpg\<close>;
  the read \<open>extMap[contentType]\<close> finds \<open>Object.prototype.constructor\<close>, and the
  file is written under the name \<open>job-42-0.function Object() { [native code] }\<close>.
\<close>

theorem downloadImage_inherited_content_type:
  "fst (downloadImage exampleJoin (js ''/app'') inheritedIO Map.empty
     (js ''https://cdn.example.com/photo'') (js ''42'') 0 None) =
     js ''/jobs/job-42-0.function Object() { [native code] }'' \<and>
   snd (downloadImage exampleJoin (js ''/app'') inheritedIO Map.empty
     (js ''https://cdn.example.com/photo'') (js ''42'') 0 None)
     (js ''/app/public/jobs/job-42-0.function Object() { [native code] }'') = Some [0x89, 0x50] \<and>
   extensionRule (js ''https://cdn.example.com/photo'') (Some (js ''constructor'')) = js ''jpg''"
  by code_simp

lemma extMap_empty_key: "map_of extMap [] = None"
  by (simp add: extMap_def js_def)

text \<open>
  Apart from such content types the code follows the rule: a download that succeeds
  writes the bytes under \<open>job-{jobId}-{index}.{ext}\<close> in the public directory and
  returns the path of that name, with the extension of the rule.
\<close>

lemma downloadImage_rule_name:
  assumes "fetched io = Inr response" and "\<not> mkdirThrows io" and "\<not> writeFileThrows io"
    and "\<forall>ct. headers response (js ''content-type'') = Some ct \<longrightarrow> map_of objectPrototype ct = None"
  shows "downloadImage join cwd io files imageUrl jobId index (Some publicDir) =
         (js ''/'' @ replaceFirst (js ''public/'') [] publicDir @ js ''/job-'' @ jobId @ js ''-''
            @ decimal index @ js ''.'' @ extensionRule imageUrl (headers response (js ''content-type'')),
          files(join (join cwd publicDir)
                  (js ''job-'' @ jobId @ js ''-'' @ decimal index @ js ''.''
                     @ extensionRule imageUrl (headers response (js ''content-type'')))
                \<mapsto> data response))"
proof -
  have slash: "js ''/job-'' = js ''/'' @ js ''job-''"
    by (simp add: js_def)
  show ?thesis
  proof (cases "headers response (js ''content-type'')")
    case None
    with assms(2,3) show ?thesis
      by (simp add: downloadImage_def extensionRule_def Let_def slash assms(1) split: option.splits)
  next
    case (Some ct)
    with assms(4) have "map_of objectPrototype ct = None" by simp
    then have "extMapGet ct = map_of extMap ct"
      by (simp add: extMapGet_def split: option.splits)
    with Some assms(2,3) show ?thesis
      by (simp add: downloadImage_def extensionRule_def Let_def slash extMap_empty_key assms(1)
          split: option.splits)
  qed
qed

subsection \<open>Registration\<close>

text \<open>
  C9 fails on src/index.ts for a failure of the transport. When axios throws an
  \<open>AxiosError\<close> without a response (the request got no answer), \<open>registerWebhook\<close>
  and \<open>unregisterWebhook\<close> of src/index.ts return the error text
  \<open>HTTP undefined: undefined\<close>, which does not carry the cause; the second copy
  returns the message of the error.
\<close>

theorem registration_transport_failure:
  "registerWebhook (\<lambda>request. Inl (AxiosError cause None)) config webhookUrl eventsArg =
     \<lparr>success = False, webhook_id = None, error = Some (Msg (js ''HTTP undefined: undefined''))\<rparr> \<and>
   unregisterWebhook (\<lambda>request. Inl (AxiosError cause None)) config webhookId =
     \<lparr>success = False, webhook_id = None, error = Some (Msg (js ''HTTP undefined: undefined''))\<rparr> \<and>
   registerWebhook_copy (\<lambda>request. Inl (AxiosError cause None)) config webhookUrl eventsArg =
     Inr \<lparr>success = False, webhook_id = None, error = Some cause\<rparr> \<and>
   unregisterWebhook_copy (\<lambda>request. Inl (AxiosError cause None)) config webhookId =
     Inr \<lparr>success = False, webhook_id = None, error = Some cause\<rparr>"
  by (simp add: registerWebhook_def unregisterWebhook_def registerWebhook_copy_def
      unregisterWebhook_copy_def registerWebhookTry_def registrationCatch_def
      registrationCatch_copy_def httpErrorText_def js_def Let_def)

text \<open>
  The functions of src/index.ts return a result for whatever is thrown. Those of the
  second copy do so for every thrown value but \<open>undefined\<close> and \<open>null\<close>, where the
  \<open>catch\<close> itself throws. A failing status is reported with its status and reason by
  both.
\<close>

lemma registration_never_throws:
  "registerWebhook axiosPost config webhookUrl eventsArg =
     (case registerWebhookTry axiosPost config webhookUrl eventsArg of
        Inr result \<Rightarrow> result
      | Inl t \<Rightarrow> registrationCatch t)"
  "\<not> success (registrationCatch t) \<and> error (registrationCatch t) \<noteq> None"
  by (simp_all add: registerWebhook_def registrationCatch_def
      split: sum.splits thrown.splits option.splits)

lemma registrationCatch_copy_result:
  "t \<noteq> Nullish \<Longrightarrow> \<exists>r. registrationCatch_copy t = Inr r \<and> \<not> success r \<and> error r \<noteq> None"
  "registrationCatch_copy Nullish = Inl (TypeError TypeErrorText)"
  by (simp_all add: registrationCatch_copy_def split: thrown.splits option.splits)

lemma registration_http_failure:
  "registrationCatch (AxiosError cause (Some response)) =
     \<lparr>success = False, webhook_id = None,
      error = Some (Msg (js ''HTTP '' @ decimal (status response) @ js '': '' @ statusText response))\<rparr>"
  "registrationCatch_copy (AxiosError cause (Some response)) =
     Inr \<lparr>success = False, webhook_id = None,
          error = Some (Msg (js ''HTTP '' @ decimal (status response) @ js '': '' @ statusText response))\<rparr>"
  by (simp_all add: registrationCatch_def registrationCatch_copy_def httpErrorText_def)

end
